theory Spec2Isabelle
  imports Main "HOL-Library.AList" "HOL-Library.Char_ord" "HOL-Library.List_Lexorder"
begin

section \<open>The client of src/frontend/src/App.js as a state machine\<close>

text \<open>
  The React components of App.js keep their state in \<open>useState\<close> cells and change it in
  event handlers. Every handler is modelled as a function from the state before to the
  state after. An \<open>async\<close> handler is cut at its \<open>await\<close>: the part before it (which
  issues the request) and the part after it (which runs when the request settles, with the
  values the closure captured when the handler started).
\<close>

subsection \<open>Values\<close>

text \<open>
  JavaScript values as far as the program builds them: strings, arrays and objects. An
  object is an association list with distinct keys in insertion order.
\<close>

datatype jsval = JString string | JArray "jsval list" | JObject "(string \<times> jsval) list"

type_synonym jsobj = "(string \<times> jsval) list"

text \<open>The user record of the auth response (\<open>response.data.user\<close>), opaque to the client.\<close>

type_synonym principal = jsobj

text \<open>An axios request fails with an HTTP status outside 2xx or without any response.\<close>

datatype error = HttpError nat | NetworkError

definition AuthorizationFailure :: error where
  "AuthorizationFailure = HttpError 401"

text \<open>The requests of the program, with the path below \<open>API\<close>.\<close>

datatype request = Get string | Post string jsobj

text \<open>A chat turn: \<open>{message, response, timestamp}\<close>; the timestamp is an ISO-8601 string.\<close>

record turn =
  message :: string
  response :: string
  timestamp :: string

text \<open>The state of \<open>AssessmentForm\<close>, lines 570-579.\<close>

record formData =
  academic_level :: string
  current_class :: string
  stream :: string
  subjects :: "string list"
  grades :: "(string \<times> string) list"
  interests :: "string list"
  strengths :: "string list"
  career_goals :: string

text \<open>
  Components mount and unmount, and a request outlives the component that issued it. Each
  mounted component has a number, and a request in flight carries the numbers of the
  components whose cells its continuation writes: React drops a write to a cell of a
  component that is not mounted any more.
\<close>

text \<open>A \<open>sendChatMessage\<close> call waiting for its response, with what its closure captured.\<close>

record pending_send =
  sent_input :: string
  sent_messages :: "turn list"
  sent_by :: nat

text \<open>A \<open>handleSubmit\<close> call waiting for its response, with what its closure captured.\<close>

record pending_save =
  saved_form :: formData
  saved_by_form :: nat
  saved_by_dashboard :: nat

text \<open>
  The state of the application: the cells of \<open>AuthProvider\<close> (lines 48-49), the two
  globals it writes (the \<open>token\<close> entry of localStorage and the default Authorization
  header of axios), the cells of the \<open>Dashboard\<close> (lines 439-443), of the
  \<open>AssessmentForm\<close> (lines 570-580) and of the \<open>RecommendationsView\<close> (lines 769-770).
  The three cells called \<open>isLoading\<close> in the source are told apart by a prefix, and
  the cell \<open>formData\<close> of the form is the field \<open>form\<close>. A component that is not
  mounted has the values its cells will start with.

  The last six fields are not cells of the program. \<open>dashboard_id\<close>, \<open>form_id\<close> and
  \<open>rec_id\<close> number the dashboard, the form and the recommendations view that are
  mounted (or will mount next). \<open>in_flight\<close> lists the POST /chat requests that have
  been issued and have not settled, \<open>saves_in_flight\<close> the POST /profile requests, and
  \<open>analyses_in_flight\<close> the POST /assessment/analyze requests, each of the latter by
  the number of the view that issued it.
\<close>

record app =
  user :: "principal option"
  token :: "string option"
  localStorage_token :: "string option"
  Authorization :: "string option"
  activeTab :: string
  profile :: "jsobj option"
  chatMessages :: "turn list"
  chatInput :: string
  isLoading :: bool
  form :: formData
  form_isLoading :: bool
  recommendations :: "string option"
  rec_isLoading :: bool
  dashboard_id :: nat
  form_id :: nat
  rec_id :: nat
  in_flight :: "pending_send list"
  saves_in_flight :: "pending_save list"
  analyses_in_flight :: "nat list"

text \<open>A list without its element at position \<open>i\<close>.\<close>

definition drop_nth :: "nat \<Rightarrow> 'a list \<Rightarrow> 'a list" where
  "drop_nth i xs = take i xs @ drop (Suc i) xs"

subsection \<open>AuthProvider\<close>

text \<open>\<open>if (token)\<close>: null and the empty string are falsy.\<close>

definition truthy :: "string option \<Rightarrow> bool" where
  "truthy t = (case t of None \<Rightarrow> False | Some v \<Rightarrow> v \<noteq> [])"

text \<open>The effect of lines 51-56, run after a render in which \<open>token\<close> changed.\<close>

definition token_effect :: "app \<Rightarrow> app" where
  "token_effect s =
     (if truthy (token s) then s\<lparr>Authorization := Some (''Bearer '' @ the (token s))\<rparr> else s)"

definition initial_formData :: formData where
  "initial_formData = \<lparr>academic_level = [], current_class = [], stream = [], subjects = [],
     grades = [], interests = [], strengths = [], career_goals = []\<rparr>"

text \<open>
  The first render at process start, \<open>stored\<close> being \<open>localStorage.getItem('token')\<close>:
  \<open>user\<close> starts as null and \<open>token\<close> as the persisted token (lines 48-49), then the
  effect arms the header. This is the program's \<open>restore()\<close>. Nothing is in flight.
\<close>

definition App_mount :: "string option \<Rightarrow> app" where
  "App_mount stored = token_effect
     \<lparr>user = None, token = stored, localStorage_token = stored, Authorization = None,
      activeTab = ''assessment'',
      profile = None, chatMessages = [], chatInput = [], isLoading = False,
      form = initial_formData, form_isLoading = False,
      recommendations = None, rec_isLoading = False,
      dashboard_id = 0, form_id = 0, rec_id = 0,
      in_flight = [], saves_in_flight = [], analyses_in_flight = []\<rparr>"

text \<open>
  A form or a recommendations view that unmounts: its cells are dropped, and the next one
  to mount starts with the initial values (lines 570-580, 769-770) under a new number.
\<close>

definition unmount_form :: "app \<Rightarrow> app" where
  "unmount_form s =
     s\<lparr>form := initial_formData, form_isLoading := False, form_id := Suc (form_id s)\<rparr>"

definition unmount_recs :: "app \<Rightarrow> app" where
  "unmount_recs s =
     s\<lparr>recommendations := None, rec_isLoading := False, rec_id := Suc (rec_id s)\<rparr>"

text \<open>
  A dashboard that mounts (the route enters \<open>/dashboard\<close>) starts with the initial
  values of its cells (lines 439-443) and with new children, all under new numbers; its
  effect (lines 445-448) calls \<open>fetchProfile\<close> and \<open>fetchChatHistory\<close>. The requests
  of the dashboard before it stay in flight.
\<close>

definition Dashboard_mount :: "app \<Rightarrow> app" where
  "Dashboard_mount s =
     (unmount_recs (unmount_form s))
       \<lparr>activeTab := ''assessment'', profile := None, chatMessages := [], chatInput := [],
        isLoading := False, dashboard_id := Suc (dashboard_id s)\<rparr>"

text \<open>
  \<open>setActiveTab\<close> (line 529). Of the three panels (lines 545-561) the tabs render the
  one whose value is \<open>activeTab\<close>; the form and the recommendations view unmount when
  their tab is left. The cells of the chat are cells of the dashboard and stay.
\<close>

definition setActiveTab :: "string \<Rightarrow> app \<Rightarrow> app" where
  "setActiveTab v s =
     (if v = activeTab s then s
      else (if activeTab s = ''assessment'' then unmount_form s
            else if activeTab s = ''recommendations'' then unmount_recs s
            else s)\<lparr>activeTab := v\<rparr>)"

text \<open>Lines 58-63, followed by the effect on \<open>token\<close>.\<close>

definition login :: "principal \<Rightarrow> string \<Rightarrow> app \<Rightarrow> app" where
  "login userData userToken s = token_effect
     (s\<lparr>user := Some userData, token := Some userToken,
        localStorage_token := Some userToken,
        Authorization := Some (''Bearer '' @ userToken)\<rparr>)"

text \<open>Lines 65-70, followed by the effect on \<open>token\<close>.\<close>

definition logout :: "app \<Rightarrow> app" where
  "logout s = token_effect
     (s\<lparr>user := None, token := None, localStorage_token := None, Authorization := None\<rparr>)"

text \<open>
  \<open>AuthModal.handleSubmit\<close> after its request settled (lines 316-322): a response carries
  \<open>data.user\<close> and \<open>data.access_token\<close>; a failure is reported by an alert only.
\<close>

definition AuthModal_handleSubmit_settle :: "error + (principal \<times> string) \<Rightarrow> app \<Rightarrow> app" where
  "AuthModal_handleSubmit_settle resp s =
     (case resp of Inr (u, t) \<Rightarrow> login u t s | Inl e \<Rightarrow> s)"

text \<open>The transitions of the session, and a run of them from process start.\<close>

datatype session_event = AuthSettled "error + (principal \<times> string)" | LogoutClick

fun session_step :: "app \<Rightarrow> session_event \<Rightarrow> app" where
  "session_step s (AuthSettled resp) = AuthModal_handleSubmit_settle resp s"
| "session_step s LogoutClick = logout s"

definition session_run :: "string option \<Rightarrow> session_event list \<Rightarrow> app" where
  "session_run stored evs = foldl session_step (App_mount stored) evs"

text \<open>An event that writes the session: a successful login or a logout.\<close>

fun writes_session :: "session_event \<Rightarrow> bool" where
  "writes_session (AuthSettled (Inr r)) = True"
| "writes_session (AuthSettled (Inl e)) = False"
| "writes_session LogoutClick = True"

text \<open>The invariant of the session of the specification.\<close>

definition session_inv :: "app \<Rightarrow> bool" where
  "session_inv s = ((user s \<noteq> None) = (token s \<noteq> None))"

definition session_of :: "app \<Rightarrow> principal option \<times> string option \<times> string option \<times> string option" where
  "session_of s = (user s, token s, localStorage_token s, Authorization s)"

subsection \<open>Route guard\<close>

datatype view = Navigate string | LandingView | DashboardView

text \<open>Lines 92-94: the landing page redirects when \<open>user\<close> is set.\<close>

definition LandingPage :: "app \<Rightarrow> view" where
  "LandingPage s = (if user s \<noteq> None then Navigate ''/dashboard'' else LandingView)"

text \<open>Lines 492-494: the dashboard redirects when \<open>user\<close> is not set.\<close>

definition Dashboard :: "app \<Rightarrow> view" where
  "Dashboard s = (if user s = None then Navigate ''/'' else DashboardView)"

subsection \<open>Dashboard: profile and chat history\<close>

text \<open>Lines 450-457, after the GET settled.\<close>

definition fetchProfile_settle :: "error + jsobj \<Rightarrow> app \<Rightarrow> app" where
  "fetchProfile_settle resp s =
     (case resp of Inr data \<Rightarrow> s\<lparr>profile := Some data\<rparr> | Inl e \<Rightarrow> s)"

text \<open>Lines 459-466, after the GET settled: the array of the response is reversed.\<close>

definition fetchChatHistory_settle :: "error + turn list \<Rightarrow> app \<Rightarrow> app" where
  "fetchChatHistory_settle resp s =
     (case resp of Inr data \<Rightarrow> s\<lparr>chatMessages := rev data\<rparr> | Inl e \<Rightarrow> s)"

text \<open>
  What the chat panel shows (lines 874-896): the turns of \<open>messages\<close> in list order, the
  first on top.
\<close>

definition displayed_turns :: "app \<Rightarrow> turn list" where
  "displayed_turns s = chatMessages s"

subsection \<open>Dashboard: sending a chat message\<close>

text \<open>
  \<open>String.prototype.trim\<close> removes the white space and the line terminators of
  ECMAScript from both ends. A \<open>string\<close> here is the UTF-8 text of the JavaScript
  string, so each of these characters is the byte sequence that encodes it: U+0009 to
  U+000D, U+0020, U+00A0, U+1680, U+2000 to U+200A, U+2028, U+2029, U+202F, U+205F,
  U+3000 and U+FEFF.
\<close>

definition ws_encodings :: "string list" where
  "ws_encodings =
     [[CHR 0x09], [CHR 0x0A], [CHR 0x0B], [CHR 0x0C], [CHR 0x0D], [CHR 0x20],
      [CHR 0xC2, CHR 0xA0], [CHR 0xE1, CHR 0x9A, CHR 0x80],
      [CHR 0xE2, CHR 0x80, CHR 0x80], [CHR 0xE2, CHR 0x80, CHR 0x81],
      [CHR 0xE2, CHR 0x80, CHR 0x82], [CHR 0xE2, CHR 0x80, CHR 0x83],
      [CHR 0xE2, CHR 0x80, CHR 0x84], [CHR 0xE2, CHR 0x80, CHR 0x85],
      [CHR 0xE2, CHR 0x80, CHR 0x86], [CHR 0xE2, CHR 0x80, CHR 0x87],
      [CHR 0xE2, CHR 0x80, CHR 0x88], [CHR 0xE2, CHR 0x80, CHR 0x89],
      [CHR 0xE2, CHR 0x80, CHR 0x8A], [CHR 0xE2, CHR 0x80, CHR 0xA8],
      [CHR 0xE2, CHR 0x80, CHR 0xA9], [CHR 0xE2, CHR 0x80, CHR 0xAF],
      [CHR 0xE2, CHR 0x81, CHR 0x9F], [CHR 0xE3, CHR 0x80, CHR 0x80],
      [CHR 0xEF, CHR 0xBB, CHR 0xBF]]"

text \<open>The length of the first of the sequences \<open>ws\<close> that \<open>v\<close> starts with, or 0.\<close>

definition ws_length :: "string list \<Rightarrow> string \<Rightarrow> nat" where
  "ws_length ws v =
     (case find (\<lambda>w. take (length w) v = w) ws of None \<Rightarrow> 0 | Some w \<Rightarrow> length w)"

function strip :: "string list \<Rightarrow> string \<Rightarrow> string" where
  "strip ws v = (if ws_length ws v = 0 then v else strip ws (drop (ws_length ws v) v))"
  by pat_completeness auto
termination
proof (relation "measure (\<lambda>(ws, v). length v)")
  show "wf (measure (\<lambda>(ws, v). length v))" by simp
next
  fix ws :: "string list" and v :: string
  assume pos: "ws_length ws v \<noteq> 0"
  then obtain w where w: "find (\<lambda>w. take (length w) v = w) ws = Some w"
      "ws_length ws v = length w"
    by (auto simp: ws_length_def split: option.splits)
  from w(1) have "take (length w) v = w" by (auto simp: find_Some_iff)
  then have "length w \<le> length v" by (metis length_take min.cobounded1)
  moreover from pos w(2) have "0 < length w" by simp
  ultimately have "length v - length w < length v" by linarith
  with w(2) show "((ws, drop (ws_length ws v) v), (ws, v)) \<in> measure (\<lambda>(ws, v). length v)"
    by simp
qed

declare strip.simps [simp del]

definition trim :: "string \<Rightarrow> string" where
  "trim v = rev (strip (map rev ws_encodings) (rev (strip ws_encodings v)))"

text \<open>The request of line 473, when the guard of line 469 lets the call through.\<close>

definition sendChatMessage_request :: "app \<Rightarrow> request option" where
  "sendChatMessage_request s =
     (if trim (chatInput s) = [] then None
      else Some (Post ''/chat'' [(''message'', JString (chatInput s))]))"

text \<open>
  Lines 468-475, up to the \<open>await\<close>: the guard on the input, \<open>setIsLoading(true)\<close>, and
  the request is on its way. The function does not read \<open>isLoading\<close>.
\<close>

definition sendChatMessage :: "app \<Rightarrow> app" where
  "sendChatMessage s =
     (if trim (chatInput s) = [] then s
      else s\<lparr>isLoading := True,
             in_flight := in_flight s @
               [\<lparr>sent_input = chatInput s, sent_messages = chatMessages s,
                 sent_by = dashboard_id s\<rparr>]\<rparr>)"

text \<open>
  Lines 477-489, run by the dashboard that sent the request: \<open>now\<close> is
  \<open>new Date().toISOString()\<close>, and the new turn is appended to the \<open>chatMessages\<close> the
  closure captured.
\<close>

definition sendChatMessage_continue :: "pending_send \<Rightarrow> error + string \<Rightarrow> string \<Rightarrow> app \<Rightarrow> app" where
  "sendChatMessage_continue p resp now s =
     (case resp of
        Inr reply \<Rightarrow>
          s\<lparr>chatMessages := sent_messages p @
                 [\<lparr>message = sent_input p, response = reply, timestamp = now\<rparr>],
            chatInput := [], isLoading := False\<rparr>
      | Inl e \<Rightarrow> s\<lparr>isLoading := False\<rparr>)"

text \<open>
  The request at position \<open>i\<close> of those in flight settles. Its continuation writes cells
  of the dashboard that sent it, which is the mounted one or is gone.
\<close>

definition sendChatMessage_settle :: "nat \<Rightarrow> error + string \<Rightarrow> string \<Rightarrow> app \<Rightarrow> app" where
  "sendChatMessage_settle i resp now s =
     (if i < length (in_flight s) then
        (if sent_by (in_flight s ! i) = dashboard_id s
         then sendChatMessage_continue (in_flight s ! i) resp now
                (s\<lparr>in_flight := drop_nth i (in_flight s)\<rparr>)
         else s\<lparr>in_flight := drop_nth i (in_flight s)\<rparr>)
      else s)"

text \<open>Lines 852-857.\<close>

definition handleKeyPress :: "string \<Rightarrow> bool \<Rightarrow> app \<Rightarrow> app" where
  "handleKeyPress key shiftKey s =
     (if key = ''Enter'' \<and> \<not> shiftKey then sendChatMessage s else s)"

text \<open>The \<open>disabled\<close> attributes of the text area (line 907) and of the button (line 912).\<close>

definition chat_input_disabled :: "app \<Rightarrow> bool" where
  "chat_input_disabled s = isLoading s"

definition send_button_disabled :: "app \<Rightarrow> bool" where
  "send_button_disabled s = (isLoading s \<or> trim (chatInput s) = [])"

text \<open>
  The events of the controls of the chat panel. A disabled control delivers no event;
  React renders the state a handler has set before the browser delivers the next event.
\<close>

datatype chat_event =
    SendClick
  | KeyPress string bool
  | InputChange string

fun chat_step :: "app \<Rightarrow> chat_event \<Rightarrow> app" where
  "chat_step s SendClick = (if send_button_disabled s then s else sendChatMessage s)"
| "chat_step s (KeyPress key shiftKey) =
     (if chat_input_disabled s then s else handleKeyPress key shiftKey s)"
| "chat_step s (InputChange v) = (if chat_input_disabled s then s else s\<lparr>chatInput := v\<rparr>)"

subsection \<open>AssessmentForm\<close>

text \<open>The items of the academic level select (lines 633-635).\<close>

definition academic_level_items :: "string list" where
  "academic_level_items = [''high_school'', ''undergraduate'', ''postgraduate'']"

text \<open>Lines 602-610 (the arrays \<open>interests\<close> and \<open>strengths\<close> of the component).\<close>

definition interests_options :: "string list" where
  "interests_options = [''Technology'', ''Science'', ''Mathematics'', ''Arts'', ''Sports'',
     ''Music'', ''Writing'', ''Business'', ''Medicine'', ''Engineering'', ''Teaching'',
     ''Research'']"

definition strengths_options :: "string list" where
  "strengths_options = [''Problem Solving'', ''Leadership'', ''Communication'',
     ''Creativity'', ''Analysis'', ''Teamwork'', ''Organization'', ''Critical Thinking'',
     ''Innovation'', ''Patience'']"

text \<open>The \<open>onCheckedChange\<close> handlers of lines 690-702 and 720-732.\<close>

definition onCheckedChange_interest :: "string \<Rightarrow> bool \<Rightarrow> formData \<Rightarrow> formData" where
  "onCheckedChange_interest interest checked fd =
     (if checked then fd\<lparr>interests := interests fd @ [interest]\<rparr>
      else fd\<lparr>interests := filter (\<lambda>i. i \<noteq> interest) (interests fd)\<rparr>)"

definition onCheckedChange_strength :: "string \<Rightarrow> bool \<Rightarrow> formData \<Rightarrow> formData" where
  "onCheckedChange_strength strength checked fd =
     (if checked then fd\<lparr>strengths := strengths fd @ [strength]\<rparr>
      else fd\<lparr>strengths := filter (\<lambda>i. i \<noteq> strength) (strengths fd)\<rparr>)"

text \<open>
  A click on a checkbox: the box is controlled, \<open>checked\<close> is
  \<open>formData.interests.includes(interest)\<close> (lines 689, 719), and the click reports the
  opposite of what the box shows.
\<close>

definition toggle_interest :: "string \<Rightarrow> formData \<Rightarrow> formData" where
  "toggle_interest interest fd =
     onCheckedChange_interest interest (interest \<notin> set (interests fd)) fd"

definition toggle_strength :: "string \<Rightarrow> formData \<Rightarrow> formData" where
  "toggle_strength strength fd =
     onCheckedChange_strength strength (strength \<notin> set (strengths fd)) fd"

text \<open>
  The events of the form. The \<open>onValueChange\<close> handlers of the three selects (lines 627,
  646, 666) and the \<open>onChange\<close> of the text area (line 747) store the value they are
  given; the select of the class is rendered for \<open>high_school\<close> only (line 641); there
  is one checkbox for each option (lines 685, 715).
\<close>

datatype form_event =
    AcademicLevelSelected string
  | CurrentClassSelected string
  | StreamSelected string
  | InterestClicked string
  | StrengthClicked string
  | CareerGoalsChanged string

fun form_step :: "formData \<Rightarrow> form_event \<Rightarrow> formData" where
  "form_step fd (AcademicLevelSelected v) = fd\<lparr>academic_level := v\<rparr>"
| "form_step fd (CurrentClassSelected v) =
     (if academic_level fd = ''high_school'' then fd\<lparr>current_class := v\<rparr> else fd)"
| "form_step fd (StreamSelected v) = fd\<lparr>stream := v\<rparr>"
| "form_step fd (InterestClicked v) =
     (if v \<in> set interests_options then toggle_interest v fd else fd)"
| "form_step fd (StrengthClicked v) =
     (if v \<in> set strengths_options then toggle_strength v fd else fd)"
| "form_step fd (CareerGoalsChanged v) = fd\<lparr>career_goals := v\<rparr>"

definition form_run :: "form_event list \<Rightarrow> formData" where
  "form_run evs = foldl form_step initial_formData evs"

text \<open>The object \<open>formData\<close>, its eight keys in the order of lines 571-578.\<close>

definition formData_object :: "formData \<Rightarrow> jsobj" where
  "formData_object fd =
     [(''academic_level'', JString (academic_level fd)),
      (''current_class'', JString (current_class fd)),
      (''stream'', JString (stream fd)),
      (''subjects'', JArray (map JString (subjects fd))),
      (''grades'', JObject (map (\<lambda>(k, v). (k, JString v)) (grades fd))),
      (''interests'', JArray (map JString (interests fd))),
      (''strengths'', JArray (map JString (strengths fd))),
      (''career_goals'', JString (career_goals fd))]"

text \<open>
  The request of lines 587-590: \<open>{...formData, user_id: 'current_user'}\<close>. Setting a key
  of an object replaces the value where the key is, or adds the key at the end.
\<close>

definition handleSubmit_request :: "app \<Rightarrow> request" where
  "handleSubmit_request s =
     Post ''/profile'' (AList.update ''user_id'' (JString ''current_user'')
                          (formData_object (form s)))"

text \<open>Lines 582-590, up to the \<open>await\<close>: no check precedes the request.\<close>

definition handleSubmit :: "app \<Rightarrow> request \<times> app" where
  "handleSubmit s =
     (handleSubmit_request s,
      s\<lparr>form_isLoading := True,
        saves_in_flight := saves_in_flight s @
          [\<lparr>saved_form = form s, saved_by_form = form_id s,
            saved_by_dashboard = dashboard_id s\<rparr>]\<rparr>)"

text \<open>
  Lines 592-599, when the request at position \<open>i\<close> of the saves in flight settles. After
  a response, \<open>onProfileUpdate\<close>, which is \<open>setProfile\<close> of the dashboard that rendered
  the form (line 546), is given the \<open>formData\<close> the closure captured; the body of the
  response is not read. Then \<open>setIsLoading(false)\<close> writes the cell of the form that
  submitted. Each write reaches its component if that component is still mounted.
\<close>

definition onProfileUpdate :: "pending_save \<Rightarrow> app \<Rightarrow> app" where
  "onProfileUpdate p s =
     (if saved_by_dashboard p = dashboard_id s
      then s\<lparr>profile := Some (formData_object (saved_form p))\<rparr> else s)"

definition handleSubmit_finally :: "pending_save \<Rightarrow> app \<Rightarrow> app" where
  "handleSubmit_finally p s =
     (if saved_by_form p = form_id s then s\<lparr>form_isLoading := False\<rparr> else s)"

definition handleSubmit_settle :: "nat \<Rightarrow> error + unit \<Rightarrow> app \<Rightarrow> app" where
  "handleSubmit_settle i resp s =
     (if i < length (saves_in_flight s) then
        (case resp of
           Inr u \<Rightarrow>
             handleSubmit_finally (saves_in_flight s ! i)
               (onProfileUpdate (saves_in_flight s ! i)
                  (s\<lparr>saves_in_flight := drop_nth i (saves_in_flight s)\<rparr>))
         | Inl e \<Rightarrow>
             handleSubmit_finally (saves_in_flight s ! i)
               (s\<lparr>saves_in_flight := drop_nth i (saves_in_flight s)\<rparr>))
      else s)"

text \<open>
  A whole successful or failed save of the form as it stands: the submission, and then
  the request it has just issued settles.
\<close>

definition save :: "error + unit \<Rightarrow> app \<Rightarrow> app" where
  "save resp s = handleSubmit_settle (length (saves_in_flight s)) resp (snd (handleSubmit s))"

subsection \<open>RecommendationsView\<close>

text \<open>The rest pattern of line 778: the object without the keys named before the rest.\<close>

definition omit :: "string list \<Rightarrow> jsobj \<Rightarrow> jsobj" where
  "omit ks obj = filter (\<lambda>(k, v). k \<notin> set ks) obj"

text \<open>Lines 773-779: no request without a profile.\<close>

definition generateRecommendations_request :: "app \<Rightarrow> request option" where
  "generateRecommendations_request s =
     (case profile s of
        None \<Rightarrow> None
      | Some p \<Rightarrow> Some (Post ''/assessment/analyze'' (omit [''user_id'', ''updated_at''] p)))"

definition generateRecommendations :: "app \<Rightarrow> request option \<times> app" where
  "generateRecommendations s =
     (case profile s of
        None \<Rightarrow> (None, s)
      | Some p \<Rightarrow>
          (generateRecommendations_request s,
           s\<lparr>rec_isLoading := True,
             analyses_in_flight := analyses_in_flight s @ [rec_id s]\<rparr>))"

text \<open>
  Lines 780-786, when the request at position \<open>i\<close> of the analyses in flight settles; of
  the response the view reads \<open>data.analysis\<close> (line 832). The continuation writes
  cells of the view that sent the request, which is the mounted one or is gone.
\<close>

definition generateRecommendations_continue :: "error + string \<Rightarrow> app \<Rightarrow> app" where
  "generateRecommendations_continue resp s =
     (case resp of
        Inr analysis \<Rightarrow> s\<lparr>recommendations := Some analysis, rec_isLoading := False\<rparr>
      | Inl e \<Rightarrow> s\<lparr>rec_isLoading := False\<rparr>)"

definition generateRecommendations_settle :: "nat \<Rightarrow> error + string \<Rightarrow> app \<Rightarrow> app" where
  "generateRecommendations_settle i resp s =
     (if i < length (analyses_in_flight s) then
        (if analyses_in_flight s ! i = rec_id s
         then generateRecommendations_continue resp
                (s\<lparr>analyses_in_flight := drop_nth i (analyses_in_flight s)\<rparr>)
         else s\<lparr>analyses_in_flight := drop_nth i (analyses_in_flight s)\<rparr>)
      else s)"

text \<open>The two buttons of the view (lines 818-826 and 834-841) and their \<open>onClick\<close>.\<close>

datatype rec_button = generate_recommendations_btn | regenerate_recommendations_btn

fun onClick :: "rec_button \<Rightarrow> app \<Rightarrow> request option \<times> app" where
  "onClick generate_recommendations_btn s = generateRecommendations s"
| "onClick regenerate_recommendations_btn s = generateRecommendations s"

text \<open>What the view renders (lines 789-843).\<close>

datatype rec_view = NoProfileCard | GenerateButton | AnalysisResult string

definition RecommendationsView :: "app \<Rightarrow> rec_view" where
  "RecommendationsView s =
     (case profile s of
        None \<Rightarrow> NoProfileCard
      | Some p \<Rightarrow> (case recommendations s of
                     None \<Rightarrow> GenerateButton
                   | Some r \<Rightarrow> AnalysisResult r))"

subsection \<open>The events of a dashboard\<close>

text \<open>
  The generate button is rendered while there is a profile and no recommendation, the
  regenerate button while there are both (lines 789, 816); both are disabled while the
  view is loading (lines 820, 837), and so is the submit button of the form while a save
  is on its way (line 756).
\<close>

definition rec_button_enabled :: "rec_button \<Rightarrow> app \<Rightarrow> bool" where
  "rec_button_enabled b s =
     (\<not> rec_isLoading s \<and>
      (case b of
         generate_recommendations_btn \<Rightarrow> RecommendationsView s = GenerateButton
       | regenerate_recommendations_btn \<Rightarrow>
           RecommendationsView s \<noteq> GenerateButton \<and> RecommendationsView s \<noteq> NoProfileCard))"

text \<open>
  What happens to a dashboard: a tab is selected; the route leaves \<open>/dashboard\<close> and
  enters it again, which mounts a new dashboard (the landing page sends a logged-in user
  back, lines 92-94); a control of the panel on the screen is used; a request settles.
  The controls of a panel deliver events while the panel is the one rendered.
  \<open>ProfileSettled\<close> and \<open>HistorySettled\<close> are the responses to the two requests
  of the effect of the mounted dashboard.
\<close>

datatype dashboard_event =
    TabSelected string
  | Remounted
  | FormEdited form_event
  | SubmitClicked
  | SubmitSettled nat "error + unit"
  | RecButtonClicked rec_button
  | RecommendationsSettled nat "error + string"
  | ProfileSettled "error + jsobj"
  | HistorySettled "error + turn list"
  | ChatPanel chat_event
  | SendSettled nat "error + string" string

fun dashboard_step :: "app \<Rightarrow> dashboard_event \<Rightarrow> app" where
  "dashboard_step s (TabSelected v) = setActiveTab v s"
| "dashboard_step s Remounted = Dashboard_mount s"
| "dashboard_step s (FormEdited ev) =
     (if activeTab s = ''assessment'' then s\<lparr>form := form_step (form s) ev\<rparr> else s)"
| "dashboard_step s SubmitClicked =
     (if activeTab s = ''assessment'' \<and> \<not> form_isLoading s then snd (handleSubmit s) else s)"
| "dashboard_step s (SubmitSettled i resp) = handleSubmit_settle i resp s"
| "dashboard_step s (RecButtonClicked b) =
     (if activeTab s = ''recommendations'' \<and> rec_button_enabled b s
      then snd (onClick b s) else s)"
| "dashboard_step s (RecommendationsSettled i resp) = generateRecommendations_settle i resp s"
| "dashboard_step s (ProfileSettled resp) = fetchProfile_settle resp s"
| "dashboard_step s (HistorySettled resp) = fetchChatHistory_settle resp s"
| "dashboard_step s (ChatPanel ev) = (if activeTab s = ''chat'' then chat_step s ev else s)"
| "dashboard_step s (SendSettled i resp now) = sendChatMessage_settle i resp now s"

definition dashboard_run :: "app \<Rightarrow> dashboard_event list \<Rightarrow> app" where
  "dashboard_run s evs = foldl dashboard_step s evs"

text \<open>
  The state after process start, a login, the mount of the dashboard and the events
  \<open>evs\<close>.
\<close>

definition dashboard_after ::
  "string option \<Rightarrow> principal \<Rightarrow> string \<Rightarrow> dashboard_event list \<Rightarrow> app" where
  "dashboard_after stored u t evs =
     dashboard_run (Dashboard_mount (login u t (App_mount stored))) evs"

text \<open>Whether an event makes the program issue a chat request in state \<open>s\<close>.\<close>

definition issues_send :: "app \<Rightarrow> dashboard_event \<Rightarrow> bool" where
  "issues_send s ev = (length (in_flight (dashboard_step s ev)) > length (in_flight s))"

text \<open>The sends in flight that the mounted dashboard has issued.\<close>

definition own_sends :: "app \<Rightarrow> pending_send list" where
  "own_sends s = filter (\<lambda>p. sent_by p = dashboard_id s) (in_flight s)"

text \<open>
  The bookkeeping of the chat panel: at most one send of the mounted dashboard is in
  flight, \<open>isLoading\<close> is set exactly while one is, and no send in flight carries a
  number that a dashboard has yet to get.
\<close>

definition chat_inv :: "app \<Rightarrow> bool" where
  "chat_inv s =
     (length (own_sends s) \<le> 1 \<and> isLoading s = (own_sends s \<noteq> []) \<and>
      list_all (\<lambda>p. sent_by p \<le> dashboard_id s) (in_flight s))"

text \<open>
  The order of the turns on the screen, by their timestamps: ISO-8601 strings of one
  format are in the order of their instants when they are in the order of strings.
\<close>

definition oldest_first :: "turn list \<Rightarrow> bool" where
  "oldest_first ts = sorted_wrt (\<lambda>a b. timestamp a \<le> timestamp b) ts"

definition newest_first :: "turn list \<Rightarrow> bool" where
  "newest_first ts = sorted_wrt (\<lambda>a b. timestamp b \<le> timestamp a) ts"

section \<open>Session store\<close>

lemmas session_defs = App_mount_def login_def logout_def token_effect_def truthy_def
  AuthModal_handleSubmit_settle_def session_inv_def

lemma session_run_snoc:
  "session_run st (evs @ [e]) = session_step (session_run st evs) e"
  by (simp add: session_run_def)

lemma session_step_user_token:
  "user s \<noteq> None \<longrightarrow> token s \<noteq> None \<Longrightarrow>
   user (session_step s e) \<noteq> None \<longrightarrow> token (session_step s e) \<noteq> None"
  by (cases e) (auto simp: session_defs split: sum.splits prod.splits)

lemma session_run_user_token:
  "user (session_run st evs) \<noteq> None \<longrightarrow> token (session_run st evs) \<noteq> None"
proof (induction evs rule: rev_induct)
  case Nil
  show ?case by (simp add: session_run_def session_defs)
next
  case (snoc e evs)
  then show ?case unfolding session_run_snoc by (rule session_step_user_token)
qed

lemma session_step_writes: "writes_session e \<Longrightarrow> session_inv (session_step s e)"
  by (cases e rule: writes_session.cases) (auto simp: session_defs)

lemma session_step_not_writes: "\<not> writes_session e \<Longrightarrow> session_step s e = s"
  by (cases e rule: writes_session.cases) (auto simp: session_defs)

lemma session_run_inv:
  "st = None \<or> (\<exists>e \<in> set evs. writes_session e) \<Longrightarrow> session_inv (session_run st evs)"
proof (induction evs rule: rev_induct)
  case Nil
  then show ?case by (simp add: session_run_def session_defs)
next
  case (snoc e evs)
  show ?case
  proof (cases "writes_session e")
    case True
    then show ?thesis unfolding session_run_snoc by (rule session_step_writes)
  next
    case False
    with snoc.prems have "st = None \<or> (\<exists>e \<in> set evs. writes_session e)" by auto
    then have "session_inv (session_run st evs)" by (rule snoc.IH)
    with False show ?thesis unfolding session_run_snoc by (simp add: session_step_not_writes)
  qed
qed

lemma session_run_storage:
  "localStorage_token (session_run st evs) = token (session_run st evs)"
proof (induction evs rule: rev_induct)
  case Nil
  show ?case by (simp add: session_run_def session_defs)
next
  case (snoc e evs)
  then show ?case unfolding session_run_snoc
    by (cases e) (auto simp: session_defs split: sum.splits prod.splits)
qed

lemma App_mount_session:
  "session_of (App_mount None) = (None, None, None, None)"
  "user (App_mount (Some t0)) = None"
  "token (App_mount (Some t0)) = Some t0"
  "localStorage_token (App_mount (Some t0)) = Some t0"
  by (simp_all add: session_of_def session_defs)

lemma login_session:
  "session_of (login u t s) = (Some u, Some t, Some t, Some (''Bearer '' @ t))"
  by (simp add: session_of_def session_defs)

lemma logout_session: "session_of (logout s) = (None, None, None, None)"
  by (simp add: session_of_def session_defs)

text \<open>
  C1, as stated, fails where a token is persisted: the first render takes \<open>token\<close> from
  localStorage and leaves \<open>user\<close> null (lines 48-49), and nothing restores the user.
\<close>

theorem restore_breaks_session_inv: "\<not> session_inv (App_mount (Some ''tok''))"
  by (simp add: session_defs)

text \<open>
  C1 (amended). The session is created with no principal and with the persisted token as
  its token: with nothing persisted, principal, token, persisted token and header are all
  absent; with a token persisted, the token is present and the principal is absent. A
  successful login makes the principal the user of the response and makes the token, the
  persisted token and the token of the header the token of the response. A logout makes
  all four absent. A failed login changes nothing. So the invariant holds at creation
  when nothing is persisted, after a login and after a logout. In every state reached from
  process start the persisted token is the token of the session and a principal is
  present only with a token; principal and token are present together or absent together
  once a login has succeeded or a logout has run, or when no token was persisted.
\<close>

theorem session_invariant_transitions:
  "session_of (App_mount None) = (None, None, None, None) \<and>
   session_inv (App_mount None) \<and>
   session_of (login u t s) = (Some u, Some t, Some t, Some (''Bearer '' @ t)) \<and>
   AuthModal_handleSubmit_settle (Inr (u, t)) s = login u t s \<and>
   session_inv (login u t s) \<and>
   session_of (logout s) = (None, None, None, None) \<and>
   session_inv (logout s) \<and>
   AuthModal_handleSubmit_settle (Inl e) s = s \<and>
   user (App_mount (Some t0)) = None \<and> token (App_mount (Some t0)) = Some t0 \<and>
   localStorage_token (App_mount (Some t0)) = Some t0 \<and>
   localStorage_token (session_run st evs) = token (session_run st evs) \<and>
   (user (session_run st evs) \<noteq> None \<longrightarrow> token (session_run st evs) \<noteq> None) \<and>
   (st = None \<or> (\<exists>e \<in> set evs. writes_session e) \<longrightarrow> session_inv (session_run st evs))"
proof -
  have inv: "session_inv (App_mount None)" "session_inv (login u t s)"
    "session_inv (logout s)"
    by (simp_all add: session_defs)
  have settle: "AuthModal_handleSubmit_settle (Inr (u, t)) s = login u t s"
    "AuthModal_handleSubmit_settle (Inl e) s = s"
    by (simp_all add: AuthModal_handleSubmit_settle_def)
  show ?thesis
    using session_run_user_token [of st evs] session_run_inv [of st evs]
      session_run_storage [of st evs]
    by (simp add: inv settle App_mount_session login_session logout_session)
qed

text \<open>
  A run that starts with a stale persisted token, fails a login and then logs in: the
  login writes the session, and principal and token are those of the response afterwards.
  A logout after it leaves nothing.
\<close>

theorem session_invariant_transitions_witness:
  "(\<exists>e \<in> set [AuthSettled (Inl NetworkError),
               AuthSettled (Inr ([(''name'', JString ''Asha'')], ''t1''))].
      writes_session e) \<and>
   user (session_run (Some ''t0'') [AuthSettled (Inl NetworkError),
      AuthSettled (Inr ([(''name'', JString ''Asha'')], ''t1''))]) \<noteq> None \<and>
   token (session_run (Some ''t0'') [AuthSettled (Inl NetworkError),
      AuthSettled (Inr ([(''name'', JString ''Asha'')], ''t1''))]) \<noteq> None \<and>
   session_inv (session_run (Some ''t0'') [AuthSettled (Inl NetworkError),
      AuthSettled (Inr ([(''name'', JString ''Asha'')], ''t1''))]) \<and>
   session_of (session_run (Some ''t0'') [AuthSettled (Inl NetworkError),
      AuthSettled (Inr ([(''name'', JString ''Asha'')], ''t1''))]) =
     (Some [(''name'', JString ''Asha'')], Some ''t1'', Some ''t1'', Some ''Bearer t1'') \<and>
   session_of (session_run (Some ''t0'') [AuthSettled (Inl NetworkError),
      AuthSettled (Inr ([(''name'', JString ''Asha'')], ''t1'')), LogoutClick]) =
     (None, None, None, None)"
  using session_invariant_transitions [where u = "[(''name'', JString ''Asha'')]"
      and t = "''t1''" and s = "App_mount (Some ''t0'')" and e = NetworkError
      and ?t0.0 = "''t0''" and st = "Some ''t0''"
      and evs = "[AuthSettled (Inl NetworkError),
        AuthSettled (Inr ([(''name'', JString ''Asha'')], ''t1''))]"]
    session_invariant_transitions [where u = "[(''name'', JString ''Asha'')]"
      and t = "''t1''"
      and s = "login [(''name'', JString ''Asha'')] ''t1'' (App_mount (Some ''t0''))"
      and e = NetworkError and ?t0.0 = "''t0''" and st = "Some ''t0''"
      and evs = "[AuthSettled (Inl NetworkError),
        AuthSettled (Inr ([(''name'', JString ''Asha'')], ''t1'')), LogoutClick]"]
  by (simp add: session_run_def AuthModal_handleSubmit_settle_def session_of_def)

section \<open>Failed requests\<close>

lemmas settle_defs = fetchChatHistory_settle_def fetchProfile_settle_def
  sendChatMessage_settle_def sendChatMessage_continue_def handleSubmit_settle_def
  handleSubmit_finally_def onProfileUpdate_def generateRecommendations_settle_def
  generateRecommendations_continue_def

lemma settle_failure_session:
  "session_of (fetchChatHistory_settle (Inl e) s) = session_of s"
  "session_of (fetchProfile_settle (Inl e) s) = session_of s"
  "session_of (sendChatMessage_settle i (Inl e) now s) = session_of s"
  "session_of (handleSubmit_settle i (Inl e) s) = session_of s"
  "session_of (generateRecommendations_settle i (Inl e) s) = session_of s"
  by (simp_all add: session_of_def settle_defs)

lemma settle_failure_Dashboard:
  "Dashboard (fetchChatHistory_settle (Inl e) s) = Dashboard s"
  "Dashboard (fetchProfile_settle (Inl e) s) = Dashboard s"
  "Dashboard (sendChatMessage_settle i (Inl e) now s) = Dashboard s"
  "Dashboard (handleSubmit_settle i (Inl e) s) = Dashboard s"
  "Dashboard (generateRecommendations_settle i (Inl e) s) = Dashboard s"
  by (simp_all add: Dashboard_def settle_defs)

text \<open>
  C2, as stated, fails: a logged-in user whose history request is answered with status 401
  keeps principal, token, persisted token and header, and stays on the dashboard. The
  \<open>catch\<close> of \<open>fetchChatHistory\<close> writes a line to the console and nothing else
  (lines 463-465).
\<close>

theorem authorization_failure_keeps_session:
  "Dashboard (fetchChatHistory_settle (Inl AuthorizationFailure)
      (Dashboard_mount (login [(''name'', JString ''Asha'')] ''tok'' (App_mount None))))
     = DashboardView \<and>
   session_of (fetchChatHistory_settle (Inl AuthorizationFailure)
      (Dashboard_mount (login [(''name'', JString ''Asha'')] ''tok'' (App_mount None))))
     = (Some [(''name'', JString ''Asha'')], Some ''tok'', Some ''tok'', Some ''Bearer tok'')"
  by (simp add: session_defs Dashboard_def fetchChatHistory_settle_def Dashboard_mount_def
      unmount_form_def unmount_recs_def session_of_def)

text \<open>
  C2 (amended). A protected request that fails, with an authorization failure or any
  other, leaves the session as it is (principal, token, persisted token and header) and
  the route guard of the dashboard decides as before; a failed \<open>loadHistory()\<close> leaves
  the turns on the screen as they are, and none is rendered after it fails on a dashboard
  that has just mounted.
\<close>

theorem failed_request_keeps_session:
  "session_of (fetchChatHistory_settle (Inl e) s) = session_of s \<and>
   session_of (fetchProfile_settle (Inl e) s) = session_of s \<and>
   session_of (sendChatMessage_settle i (Inl e) now s) = session_of s \<and>
   session_of (handleSubmit_settle i (Inl e) s) = session_of s \<and>
   session_of (generateRecommendations_settle i (Inl e) s) = session_of s \<and>
   Dashboard (fetchChatHistory_settle (Inl e) s) = Dashboard s \<and>
   Dashboard (fetchProfile_settle (Inl e) s) = Dashboard s \<and>
   Dashboard (sendChatMessage_settle i (Inl e) now s) = Dashboard s \<and>
   Dashboard (handleSubmit_settle i (Inl e) s) = Dashboard s \<and>
   Dashboard (generateRecommendations_settle i (Inl e) s) = Dashboard s \<and>
   displayed_turns (fetchChatHistory_settle (Inl e) s) = displayed_turns s \<and>
   displayed_turns (fetchChatHistory_settle (Inl e) (Dashboard_mount s)) = []"
proof -
  have shown: "displayed_turns (fetchChatHistory_settle (Inl e) t) = displayed_turns t" for t
    by (simp add: fetchChatHistory_settle_def)
  have none: "displayed_turns (Dashboard_mount s) = []"
    by (simp add: displayed_turns_def Dashboard_mount_def)
  show ?thesis
    by (simp add: settle_failure_session settle_failure_Dashboard shown none)
qed

theorem failed_request_keeps_session_witness:
  "session_of (fetchProfile_settle (Inl (HttpError 401))
      (Dashboard_mount (login [(''name'', JString ''Asha'')] ''tok'' (App_mount None))))
     = (Some [(''name'', JString ''Asha'')], Some ''tok'', Some ''tok'', Some ''Bearer tok'') \<and>
   displayed_turns (fetchChatHistory_settle (Inl (HttpError 401))
      (Dashboard_mount (login [(''name'', JString ''Asha'')] ''tok'' (App_mount None)))) = []"
  using failed_request_keeps_session [where e = "HttpError 401"
      and s = "Dashboard_mount (login [(''name'', JString ''Asha'')] ''tok'' (App_mount None))"
      and i = 0 and now = "[]"]
  by (simp add: session_defs Dashboard_mount_def unmount_form_def unmount_recs_def
      session_of_def displayed_turns_def)

section \<open>Route guard\<close>

text \<open>
  C3, as stated, fails: with a persisted token and no login yet, the dashboard redirects
  to the landing page and the landing page stays where it is. Both guards read \<open>user\<close>
  (lines 92 and 492), which a restore leaves null.
\<close>

theorem restored_token_is_not_admitted:
  "Dashboard (App_mount (Some ''tok'')) = Navigate ''/'' \<and>
   LandingPage (App_mount (Some ''tok'')) = LandingView"
  by (simp add: session_defs Dashboard_def LandingPage_def)

text \<open>
  C3 (amended). After \<open>restore()\<close> finds a persisted token, the session holds the token,
  the header is armed when the token is not empty, and the principal is absent. The route
  guard is a function of the presence of the principal: with a principal the protected
  view is allowed and the landing view redirects to it, without one the protected view
  redirects to the landing view; so after a restore the protected view redirects to the
  landing view.
\<close>

theorem route_guard_reads_principal:
  "token (App_mount (Some t)) = Some t \<and>
   user (App_mount (Some t)) = None \<and>
   Authorization (App_mount (Some t)) = (if t = [] then None else Some (''Bearer '' @ t)) \<and>
   Dashboard (App_mount (Some t)) = Navigate ''/'' \<and>
   LandingPage (App_mount (Some t)) = LandingView \<and>
   (user s \<noteq> None \<longrightarrow> Dashboard s = DashboardView \<and> LandingPage s = Navigate ''/dashboard'') \<and>
   (user s = None \<longrightarrow> Dashboard s = Navigate ''/'' \<and> LandingPage s = LandingView)"
  by (simp add: session_defs Dashboard_def LandingPage_def)

theorem route_guard_reads_principal_witness:
  "user (login [(''name'', JString ''Asha'')] ''tok'' (App_mount (Some ''old''))) \<noteq> None \<and>
   Dashboard (login [(''name'', JString ''Asha'')] ''tok'' (App_mount (Some ''old'')))
     = DashboardView \<and>
   user (logout (App_mount (Some ''old''))) = None \<and>
   Dashboard (logout (App_mount (Some ''old''))) = Navigate ''/''"
  using route_guard_reads_principal [of "''old''"
      "login [(''name'', JString ''Asha'')] ''tok'' (App_mount (Some ''old''))"]
    route_guard_reads_principal [of "''old''" "logout (App_mount (Some ''old''))"]
  by (simp add: session_defs)

section \<open>Conversation\<close>

lemma trim_examples:
  "trim ''hi'' = ''hi''"
  "trim ''again'' = ''again''"
  by code_simp+

lemma sendChatMessage_in_flight:
  "(sendChatMessage_request s = None) = (in_flight (sendChatMessage s) = in_flight s)"
  by (simp add: sendChatMessage_request_def sendChatMessage_def)

lemma drop_nth_decompose:
  "i < length xs \<Longrightarrow> xs = take i xs @ xs ! i # drop (Suc i) xs"
  by (simp add: id_take_nth_drop)

lemma filter_drop_nth_own:
  assumes "i < length xs" and "P (xs ! i)" and "length (filter P xs) \<le> 1"
  shows "filter P (drop_nth i xs) = []"
proof -
  have "filter P xs = filter P (take i xs) @ xs ! i # filter P (drop (Suc i) xs)"
    using assms(1,2) by (subst drop_nth_decompose [of i xs]) simp_all
  with assms(3) have "filter P (take i xs) = []" "filter P (drop (Suc i) xs) = []"
    by simp_all
  then show ?thesis by (simp add: drop_nth_def)
qed

lemma filter_drop_nth_other:
  assumes "i < length xs" and "\<not> P (xs ! i)"
  shows "filter P (drop_nth i xs) = filter P xs"
proof -
  have "filter P xs = filter P (take i xs) @ filter P (drop (Suc i) xs)"
    using assms by (subst drop_nth_decompose [of i xs]) simp_all
  then show ?thesis by (simp add: drop_nth_def)
qed

lemma list_all_drop_nth: "list_all P xs \<Longrightarrow> list_all P (drop_nth i xs)"
  by (auto simp: drop_nth_def list_all_iff dest: in_set_takeD in_set_dropD)

lemma length_drop_nth: "length (drop_nth i xs) \<le> length xs"
  by (simp add: drop_nth_def)

lemma chat_inv_sendChatMessage:
  "chat_inv s \<Longrightarrow> \<not> isLoading s \<Longrightarrow> chat_inv (sendChatMessage s)"
  by (simp add: chat_inv_def own_sends_def sendChatMessage_def)

lemma chat_inv_settle:
  assumes "chat_inv s"
  shows "chat_inv (sendChatMessage_settle i resp now s)"
proof (cases "i < length (in_flight s)")
  case False
  with assms show ?thesis by (simp add: sendChatMessage_settle_def)
next
  case i: True
  from assms have bound: "list_all (\<lambda>p. sent_by p \<le> dashboard_id s) (drop_nth i (in_flight s))"
    by (simp add: chat_inv_def list_all_drop_nth)
  show ?thesis
  proof (cases "sent_by (in_flight s ! i) = dashboard_id s")
    case True
    with i assms
    have "filter (\<lambda>p. sent_by p = dashboard_id s) (drop_nth i (in_flight s)) = []"
      by (intro filter_drop_nth_own) (simp_all add: chat_inv_def own_sends_def)
    with i True bound show ?thesis
      by (simp add: sendChatMessage_settle_def sendChatMessage_continue_def chat_inv_def
          own_sends_def split: sum.splits)
  next
    case False
    with i
    have "filter (\<lambda>p. sent_by p = dashboard_id s) (drop_nth i (in_flight s)) =
        filter (\<lambda>p. sent_by p = dashboard_id s) (in_flight s)"
      by (intro filter_drop_nth_other) simp_all
    with i False bound assms show ?thesis
      by (simp add: sendChatMessage_settle_def chat_inv_def own_sends_def)
  qed
qed

lemma chat_inv_chat_step: "chat_inv s \<Longrightarrow> chat_inv (chat_step s ev)"
  by (cases ev)
    (auto simp: chat_inv_def own_sends_def send_button_disabled_def chat_input_disabled_def
      handleKeyPress_def sendChatMessage_def)

lemma chat_inv_Dashboard_mount:
  assumes "chat_inv s"
  shows "chat_inv (Dashboard_mount s)"
proof -
  from assms have bound: "list_all (\<lambda>p. sent_by p \<le> dashboard_id s) (in_flight s)"
    by (simp add: chat_inv_def)
  then have "filter (\<lambda>p. sent_by p = Suc (dashboard_id s)) (in_flight s) = []"
    by (auto simp: list_all_iff filter_empty_conv)
  moreover from bound have "list_all (\<lambda>p. sent_by p \<le> Suc (dashboard_id s)) (in_flight s)"
    by (auto simp: list_all_iff)
  ultimately show ?thesis
    by (simp add: chat_inv_def own_sends_def Dashboard_mount_def unmount_form_def
        unmount_recs_def)
qed

lemma chat_inv_step: "chat_inv s \<Longrightarrow> chat_inv (dashboard_step s ev)"
proof (cases ev)
  case (TabSelected v)
  assume "chat_inv s"
  then show ?thesis using TabSelected
    by (simp add: setActiveTab_def unmount_form_def unmount_recs_def chat_inv_def own_sends_def)
next
  case Remounted
  assume "chat_inv s"
  then show ?thesis using Remounted by (simp add: chat_inv_Dashboard_mount)
next
  case (FormEdited fev)
  assume "chat_inv s"
  then show ?thesis using FormEdited by (simp add: chat_inv_def own_sends_def)
next
  case SubmitClicked
  assume "chat_inv s"
  then show ?thesis using SubmitClicked by (simp add: handleSubmit_def chat_inv_def own_sends_def)
next
  case (SubmitSettled i resp)
  assume "chat_inv s"
  then show ?thesis using SubmitSettled
    by (simp add: handleSubmit_settle_def handleSubmit_finally_def onProfileUpdate_def
        chat_inv_def own_sends_def split: sum.splits)
next
  case (RecButtonClicked b)
  assume "chat_inv s"
  then show ?thesis using RecButtonClicked
    by (cases b)
      (simp_all add: generateRecommendations_def chat_inv_def own_sends_def split: option.splits)
next
  case (RecommendationsSettled i resp)
  assume "chat_inv s"
  then show ?thesis using RecommendationsSettled
    by (simp add: generateRecommendations_settle_def generateRecommendations_continue_def
        chat_inv_def own_sends_def split: sum.splits)
next
  case (ProfileSettled resp)
  assume "chat_inv s"
  then show ?thesis using ProfileSettled
    by (simp add: fetchProfile_settle_def chat_inv_def own_sends_def split: sum.splits)
next
  case (HistorySettled resp)
  assume "chat_inv s"
  then show ?thesis using HistorySettled
    by (simp add: fetchChatHistory_settle_def chat_inv_def own_sends_def split: sum.splits)
next
  case (ChatPanel cev)
  assume "chat_inv s"
  then show ?thesis using ChatPanel by (simp add: chat_inv_chat_step)
next
  case (SendSettled i resp now)
  assume "chat_inv s"
  then show ?thesis using SendSettled by (simp add: chat_inv_settle)
qed

lemma chat_inv_run: "chat_inv s \<Longrightarrow> chat_inv (dashboard_run s evs)"
  unfolding dashboard_run_def by (induction evs arbitrary: s) (simp_all add: chat_inv_step)

lemma chat_inv_App_mount: "chat_inv (login u t (App_mount st))"
  by (simp add: chat_inv_def own_sends_def login_def App_mount_def token_effect_def)

lemma chat_inv_dashboard_after: "chat_inv (dashboard_after st u t evs)"
  unfolding dashboard_after_def
  by (intro chat_inv_run chat_inv_Dashboard_mount chat_inv_App_mount)

lemma loading_no_send: "isLoading s \<Longrightarrow> \<not> issues_send s ev"
proof (cases ev)
  case (SendSettled i resp now)
  show ?thesis using SendSettled length_drop_nth [of i "in_flight s"]
    by (simp add: issues_send_def sendChatMessage_settle_def sendChatMessage_continue_def
        not_less split: sum.splits)
next
  case (ChatPanel cev)
  assume "isLoading s"
  then show ?thesis using ChatPanel
    by (cases cev)
      (simp_all add: issues_send_def send_button_disabled_def chat_input_disabled_def)
next
  case (RecButtonClicked b)
  show ?thesis using RecButtonClicked
    by (cases b)
      (simp_all add: issues_send_def generateRecommendations_def split: option.splits)
qed (simp_all add: issues_send_def setActiveTab_def unmount_form_def unmount_recs_def
    Dashboard_mount_def handleSubmit_def handleSubmit_settle_def handleSubmit_finally_def
    onProfileUpdate_def generateRecommendations_settle_def
    generateRecommendations_continue_def fetchProfile_settle_def fetchChatHistory_settle_def
    split: sum.splits)

lemmas run_defs = dashboard_after_def dashboard_run_def Dashboard_mount_def unmount_form_def
  unmount_recs_def setActiveTab_def App_mount_def login_def token_effect_def truthy_def
  initial_formData_def

lemmas chat_defs = send_button_disabled_def chat_input_disabled_def handleKeyPress_def
  sendChatMessage_def sendChatMessage_settle_def sendChatMessage_continue_def
  issues_send_def own_sends_def drop_nth_def trim_examples

text \<open>
  C4, as stated, fails. The user sends a message; before the reply arrives the route
  leaves the dashboard and comes back to it (the landing page redirects a logged-in user
  to \<open>/dashboard\<close>, lines 92-94), which mounts a new dashboard whose \<open>isLoading\<close>
  starts as false (line 443); the user sends again. Two chat requests are in flight.
\<close>

theorem second_send_after_remount:
  "in_flight (dashboard_after None [(''name'', JString ''Asha'')] ''tok''
      [TabSelected ''chat'', ChatPanel (InputChange ''hi''),
       ChatPanel (KeyPress ''Enter'' False),
       Remounted,
       TabSelected ''chat'', ChatPanel (InputChange ''again''), ChatPanel SendClick])
   = [\<lparr>sent_input = ''hi'', sent_messages = [], sent_by = 1\<rparr>,
      \<lparr>sent_input = ''again'', sent_messages = [], sent_by = 2\<rparr>]"
  by (simp add: run_defs chat_defs)

text \<open>
  C4 (amended). Sends are serialized within one mounted dashboard. In every state reached
  from a login through tab changes, remounts, the controls of the panels and settled
  requests, at most one send of the mounted dashboard is in flight, and \<open>isLoading\<close> is
  set exactly while one is; while one is, the send button and the text area are disabled
  and no event, click or keystroke, issues another send. A send of a dashboard that has
  unmounted does not hold back the dashboard mounted after it.
\<close>

theorem sends_are_serialized_per_dashboard:
  "length (own_sends (dashboard_after st u t evs)) \<le> 1 \<and>
   isLoading (dashboard_after st u t evs) = (own_sends (dashboard_after st u t evs) \<noteq> []) \<and>
   (own_sends (dashboard_after st u t evs) \<noteq> [] \<longrightarrow>
      \<not> issues_send (dashboard_after st u t evs) ev) \<and>
   (own_sends (dashboard_after st u t evs) \<noteq> [] \<longrightarrow>
      send_button_disabled (dashboard_after st u t evs) \<and>
      chat_input_disabled (dashboard_after st u t evs))"
proof -
  have inv: "chat_inv (dashboard_after st u t evs)"
    by (rule chat_inv_dashboard_after)
  then show ?thesis
    by (auto simp: chat_inv_def loading_no_send send_button_disabled_def chat_input_disabled_def)
qed

text \<open>
  The user types a message and presses Enter: a send of the mounted dashboard is in
  flight, and neither a click nor a second Enter issues another. Once the send has failed,
  a click sends again.
\<close>

theorem sends_are_serialized_per_dashboard_witness:
  "own_sends (dashboard_after None [(''name'', JString ''Asha'')] ''tok''
      [TabSelected ''chat'', ChatPanel (InputChange ''hi''),
       ChatPanel (KeyPress ''Enter'' False)]) \<noteq> [] \<and>
   \<not> issues_send (dashboard_after None [(''name'', JString ''Asha'')] ''tok''
      [TabSelected ''chat'', ChatPanel (InputChange ''hi''),
       ChatPanel (KeyPress ''Enter'' False)]) (ChatPanel SendClick) \<and>
   \<not> issues_send (dashboard_after None [(''name'', JString ''Asha'')] ''tok''
      [TabSelected ''chat'', ChatPanel (InputChange ''hi''),
       ChatPanel (KeyPress ''Enter'' False)]) (ChatPanel (KeyPress ''Enter'' False)) \<and>
   issues_send (dashboard_after None [(''name'', JString ''Asha'')] ''tok''
      [TabSelected ''chat'', ChatPanel (InputChange ''hi''),
       ChatPanel (KeyPress ''Enter'' False),
       SendSettled 0 (Inl NetworkError) ''2024-05-01T10:00:00.000Z''])
      (ChatPanel SendClick)"
  using sends_are_serialized_per_dashboard [where st = None
      and u = "[(''name'', JString ''Asha'')]" and t = "''tok''"
      and evs = "[TabSelected ''chat'', ChatPanel (InputChange ''hi''),
       ChatPanel (KeyPress ''Enter'' False)]" and ev = "ChatPanel SendClick"]
    sends_are_serialized_per_dashboard [where st = None
      and u = "[(''name'', JString ''Asha'')]" and t = "''tok''"
      and evs = "[TabSelected ''chat'', ChatPanel (InputChange ''hi''),
       ChatPanel (KeyPress ''Enter'' False)]" and ev = "ChatPanel (KeyPress ''Enter'' False)"]
  by (simp add: run_defs chat_defs)

section \<open>Recommendations\<close>

lemmas rec_defs = handleSubmit_def handleSubmit_settle_def onProfileUpdate_def
  handleSubmit_finally_def generateRecommendations_def generateRecommendations_request_def
  generateRecommendations_settle_def generateRecommendations_continue_def
  fetchProfile_settle_def rec_button_enabled_def RecommendationsView_def drop_nth_def

lemma recommendations_chat_step: "recommendations (chat_step s ev) = recommendations s"
  by (cases ev)
    (simp_all add: send_button_disabled_def chat_input_disabled_def handleKeyPress_def
      sendChatMessage_def)

lemma recommendations_SubmitSettled:
  "recommendations (handleSubmit_settle j resp s) = recommendations s"
  by (simp add: handleSubmit_settle_def handleSubmit_finally_def onProfileUpdate_def
      split: sum.splits)

lemma recommendations_dashboard_step:
  assumes "recommendations (dashboard_step s ev) \<noteq> recommendations s"
  shows "(\<exists>i a. ev = RecommendationsSettled i (Inr a) \<and> i < length (analyses_in_flight s) \<and>
            analyses_in_flight s ! i = rec_id s \<and>
            recommendations (dashboard_step s ev) = Some a) \<or>
         (((\<exists>v. ev = TabSelected v) \<or> ev = Remounted) \<and>
            recommendations (dashboard_step s ev) = None)"
proof (cases ev)
  case (TabSelected v)
  with assms show ?thesis
    by (simp add: setActiveTab_def unmount_form_def unmount_recs_def split: if_splits)
next
  case Remounted
  then show ?thesis
    by (simp add: Dashboard_mount_def unmount_form_def unmount_recs_def)
next
  case (FormEdited fev)
  with assms show ?thesis by (simp split: if_splits)
next
  case SubmitClicked
  with assms show ?thesis by (simp add: handleSubmit_def split: if_splits)
next
  case (SubmitSettled j resp)
  with assms show ?thesis by (simp add: recommendations_SubmitSettled)
next
  case (RecButtonClicked b)
  with assms show ?thesis
    by (cases b) (simp_all add: generateRecommendations_def split: option.splits if_splits)
next
  case (RecommendationsSettled i resp)
  with assms show ?thesis
    by (cases resp)
      (simp_all add: generateRecommendations_settle_def generateRecommendations_continue_def
        split: if_splits)
next
  case (ProfileSettled resp)
  with assms show ?thesis by (simp add: fetchProfile_settle_def split: sum.splits)
next
  case (HistorySettled resp)
  with assms show ?thesis by (simp add: fetchChatHistory_settle_def split: sum.splits)
next
  case (ChatPanel cev)
  with assms show ?thesis by (simp add: recommendations_chat_step split: if_splits)
next
  case (SendSettled i resp now)
  with assms show ?thesis
    by (simp add: sendChatMessage_settle_def sendChatMessage_continue_def
        split: if_splits sum.splits)
qed

text \<open>
  C5, as stated, fails. A profile is loaded; the user edits the form and submits it; while
  the save is on its way the user opens the recommendations tab and generates the
  recommendations from the loaded profile; then the save succeeds. The profile in memory
  is the saved one and the view on the screen still presents the analysis of the profile
  before it: \<open>onProfileUpdate\<close> writes \<open>profile\<close> only, and nothing in
  \<open>RecommendationsView\<close> resets \<open>recommendations\<close> when its \<open>profile\<close> changes.
\<close>

theorem save_keeps_cached_recommendation:
  "RecommendationsView
     (dashboard_after None [(''name'', JString ''Asha'')] ''tok''
        [ProfileSettled (Inr [(''academic_level'', JString ''high_school'')]),
         FormEdited (AcademicLevelSelected ''undergraduate''),
         SubmitClicked,
         TabSelected ''recommendations'',
         RecButtonClicked generate_recommendations_btn,
         RecommendationsSettled 0 (Inr ''Consider data science''),
         SubmitSettled 0 (Inr ())])
     = AnalysisResult ''Consider data science'' \<and>
   activeTab
     (dashboard_after None [(''name'', JString ''Asha'')] ''tok''
        [ProfileSettled (Inr [(''academic_level'', JString ''high_school'')]),
         FormEdited (AcademicLevelSelected ''undergraduate''),
         SubmitClicked,
         TabSelected ''recommendations'',
         RecButtonClicked generate_recommendations_btn,
         RecommendationsSettled 0 (Inr ''Consider data science''),
         SubmitSettled 0 (Inr ())])
     = ''recommendations'' \<and>
   profile
     (dashboard_after None [(''name'', JString ''Asha'')] ''tok''
        [ProfileSettled (Inr [(''academic_level'', JString ''high_school'')]),
         FormEdited (AcademicLevelSelected ''undergraduate''),
         SubmitClicked,
         TabSelected ''recommendations'',
         RecButtonClicked generate_recommendations_btn,
         RecommendationsSettled 0 (Inr ''Consider data science''),
         SubmitSettled 0 (Inr ())])
     = Some (formData_object (initial_formData\<lparr>academic_level := ''undergraduate''\<rparr>))"
  by (simp add: run_defs rec_defs)

text \<open>
  C5 (amended). The cached recommendation is a cell of the mounted recommendations view.
  It changes only in two ways: a generate or regenerate request of that view succeeds,
  and the cell holds the new analysis; or the view unmounts because another tab is
  selected or the dashboard remounts, and the next view starts without a recommendation.
  A settled save does not touch it: when a save of the mounted dashboard succeeds while
  the view is on the screen, the profile in memory becomes the submitted form and the
  view presents what it presented before, the cached analysis if there is one.
\<close>

theorem recommendation_is_a_cell_of_the_view:
  "(recommendations (dashboard_step s ev) \<noteq> recommendations s \<longrightarrow>
      (\<exists>i a. ev = RecommendationsSettled i (Inr a) \<and> i < length (analyses_in_flight s) \<and>
         analyses_in_flight s ! i = rec_id s \<and>
         recommendations (dashboard_step s ev) = Some a) \<or>
      (((\<exists>v. ev = TabSelected v) \<or> ev = Remounted) \<and>
         recommendations (dashboard_step s ev) = None)) \<and>
   (i < length (analyses_in_flight s) \<and> analyses_in_flight s ! i = rec_id s \<longrightarrow>
      recommendations (dashboard_step s (RecommendationsSettled i (Inr a))) = Some a) \<and>
   (activeTab s = ''recommendations'' \<and> v \<noteq> ''recommendations'' \<longrightarrow>
      recommendations (dashboard_step s (TabSelected v)) = None) \<and>
   recommendations (dashboard_step s Remounted) = None \<and>
   recommendations (dashboard_step s (SubmitSettled j resp)) = recommendations s \<and>
   (activeTab s = ''recommendations'' \<and> j < length (saves_in_flight s) \<and>
    saved_by_dashboard (saves_in_flight s ! j) = dashboard_id s \<longrightarrow>
      profile (dashboard_step s (SubmitSettled j (Inr u))) =
        Some (formData_object (saved_form (saves_in_flight s ! j))) \<and>
      RecommendationsView (dashboard_step s (SubmitSettled j (Inr u))) =
        (case recommendations s of None \<Rightarrow> GenerateButton | Some r \<Rightarrow> AnalysisResult r))"
proof -
  have settled: "i < length (analyses_in_flight s) \<and> analyses_in_flight s ! i = rec_id s \<longrightarrow>
      recommendations (dashboard_step s (RecommendationsSettled i (Inr a))) = Some a"
    by (simp add: generateRecommendations_settle_def generateRecommendations_continue_def)
  have tab: "activeTab s = ''recommendations'' \<and> v \<noteq> ''recommendations'' \<longrightarrow>
      recommendations (dashboard_step s (TabSelected v)) = None"
    by (auto simp: setActiveTab_def unmount_recs_def)
  have remount: "recommendations (dashboard_step s Remounted) = None"
    by (simp add: Dashboard_mount_def unmount_form_def unmount_recs_def)
  have save: "recommendations (dashboard_step s (SubmitSettled j resp)) = recommendations s"
    by (simp add: recommendations_SubmitSettled)
  have saved: "activeTab s = ''recommendations'' \<and> j < length (saves_in_flight s) \<and>
    saved_by_dashboard (saves_in_flight s ! j) = dashboard_id s \<longrightarrow>
      profile (dashboard_step s (SubmitSettled j (Inr u))) =
        Some (formData_object (saved_form (saves_in_flight s ! j))) \<and>
      RecommendationsView (dashboard_step s (SubmitSettled j (Inr u))) =
        (case recommendations s of None \<Rightarrow> GenerateButton | Some r \<Rightarrow> AnalysisResult r)"
    by (simp add: handleSubmit_settle_def handleSubmit_finally_def onProfileUpdate_def
        RecommendationsView_def)
  from recommendations_dashboard_step [of s ev] settled tab remount save saved
  show ?thesis by blast
qed

text \<open>
  The run above, before the analysis arrives and before the save settles: the response
  to the generate request of the mounted view changes the cell; the save in flight is one
  of the mounted dashboard, and when it succeeds the view on the screen presents the
  analysis it had; selecting the chat tab drops it.
\<close>

theorem recommendation_is_a_cell_of_the_view_witness:
  "recommendations
     (dashboard_step
        (dashboard_after None [(''name'', JString ''Asha'')] ''tok''
           [ProfileSettled (Inr [(''academic_level'', JString ''high_school'')]),
            FormEdited (AcademicLevelSelected ''undergraduate''),
            SubmitClicked,
            TabSelected ''recommendations'',
            RecButtonClicked generate_recommendations_btn])
        (RecommendationsSettled 0 (Inr ''Consider data science'')))
     \<noteq> recommendations
        (dashboard_after None [(''name'', JString ''Asha'')] ''tok''
           [ProfileSettled (Inr [(''academic_level'', JString ''high_school'')]),
            FormEdited (AcademicLevelSelected ''undergraduate''),
            SubmitClicked,
            TabSelected ''recommendations'',
            RecButtonClicked generate_recommendations_btn]) \<and>
   analyses_in_flight
     (dashboard_after None [(''name'', JString ''Asha'')] ''tok''
        [ProfileSettled (Inr [(''academic_level'', JString ''high_school'')]),
         FormEdited (AcademicLevelSelected ''undergraduate''),
         SubmitClicked,
         TabSelected ''recommendations'',
         RecButtonClicked generate_recommendations_btn])
     = [rec_id
          (dashboard_after None [(''name'', JString ''Asha'')] ''tok''
             [ProfileSettled (Inr [(''academic_level'', JString ''high_school'')]),
              FormEdited (AcademicLevelSelected ''undergraduate''),
              SubmitClicked,
              TabSelected ''recommendations'',
              RecButtonClicked generate_recommendations_btn])] \<and>
   activeTab
     (dashboard_after None [(''name'', JString ''Asha'')] ''tok''
        [ProfileSettled (Inr [(''academic_level'', JString ''high_school'')]),
         FormEdited (AcademicLevelSelected ''undergraduate''),
         SubmitClicked,
         TabSelected ''recommendations'',
         RecButtonClicked generate_recommendations_btn,
         RecommendationsSettled 0 (Inr ''Consider data science'')])
     = ''recommendations'' \<and>
   map saved_by_dashboard (saves_in_flight
     (dashboard_after None [(''name'', JString ''Asha'')] ''tok''
        [ProfileSettled (Inr [(''academic_level'', JString ''high_school'')]),
         FormEdited (AcademicLevelSelected ''undergraduate''),
         SubmitClicked,
         TabSelected ''recommendations'',
         RecButtonClicked generate_recommendations_btn,
         RecommendationsSettled 0 (Inr ''Consider data science'')]))
     = [dashboard_id
          (dashboard_after None [(''name'', JString ''Asha'')] ''tok''
             [ProfileSettled (Inr [(''academic_level'', JString ''high_school'')]),
              FormEdited (AcademicLevelSelected ''undergraduate''),
              SubmitClicked,
              TabSelected ''recommendations'',
              RecButtonClicked generate_recommendations_btn,
              RecommendationsSettled 0 (Inr ''Consider data science'')])] \<and>
   RecommendationsView
     (dashboard_step
        (dashboard_after None [(''name'', JString ''Asha'')] ''tok''
           [ProfileSettled (Inr [(''academic_level'', JString ''high_school'')]),
            FormEdited (AcademicLevelSelected ''undergraduate''),
            SubmitClicked,
            TabSelected ''recommendations'',
            RecButtonClicked generate_recommendations_btn,
            RecommendationsSettled 0 (Inr ''Consider data science'')])
        (SubmitSettled 0 (Inr ())))
     = AnalysisResult ''Consider data science'' \<and>
   recommendations
     (dashboard_step
        (dashboard_after None [(''name'', JString ''Asha'')] ''tok''
           [ProfileSettled (Inr [(''academic_level'', JString ''high_school'')]),
            FormEdited (AcademicLevelSelected ''undergraduate''),
            SubmitClicked,
            TabSelected ''recommendations'',
            RecButtonClicked generate_recommendations_btn,
            RecommendationsSettled 0 (Inr ''Consider data science'')])
        (TabSelected ''chat''))
     = None"
  using recommendation_is_a_cell_of_the_view [where s =
        "dashboard_after None [(''name'', JString ''Asha'')] ''tok''
           [ProfileSettled (Inr [(''academic_level'', JString ''high_school'')]),
            FormEdited (AcademicLevelSelected ''undergraduate''),
            SubmitClicked,
            TabSelected ''recommendations'',
            RecButtonClicked generate_recommendations_btn]"
      and ev = "RecommendationsSettled 0 (Inr ''Consider data science'')"
      and i = 0 and a = "''Consider data science''" and v = "''chat''" and j = 0
      and resp = "Inr ()" and u = "()"]
    recommendation_is_a_cell_of_the_view [where s =
        "dashboard_after None [(''name'', JString ''Asha'')] ''tok''
           [ProfileSettled (Inr [(''academic_level'', JString ''high_school'')]),
            FormEdited (AcademicLevelSelected ''undergraduate''),
            SubmitClicked,
            TabSelected ''recommendations'',
            RecButtonClicked generate_recommendations_btn,
            RecommendationsSettled 0 (Inr ''Consider data science'')]"
      and ev = "TabSelected ''chat''"
      and i = 0 and a = "''Consider data science''" and v = "''chat''" and j = 0
      and resp = "Inr ()" and u = "()"]
  by (simp add: run_defs rec_defs)

lemma map_of_omit:
  "map_of (omit ks obj) k = (if k \<in> set ks then None else map_of obj k)"
  by (induction obj) (auto simp: omit_def)

lemma profile_generateRecommendations_settle:
  "profile (generateRecommendations_settle i resp s) = profile s"
  by (simp add: generateRecommendations_settle_def generateRecommendations_continue_def
      split: sum.splits)

text \<open>
  C7. The regenerate button runs the handler of the generate button,
  \<open>generateRecommendations\<close>. With a profile in memory, a click on either sends the
  profile without \<open>user_id\<close> and \<open>updated_at\<close>, and a second click after a request
  settled, with no save between them, sends the same payload. The payload has
  neither of the two keys and has every other key with the value the profile gives it, in
  the order of the profile.
\<close>

theorem regenerate_is_generate:
  "onClick regenerate_recommendations_btn s = onClick generate_recommendations_btn s \<and>
   (profile s = Some p \<longrightarrow>
      fst (onClick b s) =
        Some (Post ''/assessment/analyze'' (omit [''user_id'', ''updated_at''] p)) \<and>
      fst (onClick b' (generateRecommendations_settle i resp (snd (onClick b s)))) =
        fst (onClick b s)) \<and>
   map_of (omit [''user_id'', ''updated_at''] p) ''user_id'' = None \<and>
   map_of (omit [''user_id'', ''updated_at''] p) ''updated_at'' = None \<and>
   (k \<noteq> ''user_id'' \<and> k \<noteq> ''updated_at'' \<longrightarrow>
      map_of (omit [''user_id'', ''updated_at''] p) k = map_of p k) \<and>
   omit [''user_id'', ''updated_at''] p =
     filter (\<lambda>(k, v). k \<noteq> ''user_id'' \<and> k \<noteq> ''updated_at'') p"
proof -
  have same: "onClick c t = generateRecommendations t" for c t
    by (cases c) simp_all
  have req: "profile t = Some p \<Longrightarrow>
      fst (generateRecommendations t) =
        Some (Post ''/assessment/analyze'' (omit [''user_id'', ''updated_at''] p))" for t
    by (simp add: generateRecommendations_def generateRecommendations_request_def)
  have keep: "profile (generateRecommendations_settle i resp (snd (generateRecommendations s)))
      = profile s"
    by (simp add: profile_generateRecommendations_settle generateRecommendations_def
        split: option.splits)
  have again: "profile s = Some p \<Longrightarrow>
      fst (generateRecommendations
             (generateRecommendations_settle i resp (snd (generateRecommendations s)))) =
      fst (generateRecommendations s)"
    using keep req [of s]
      req [of "generateRecommendations_settle i resp (snd (generateRecommendations s))"]
    by simp
  have flt: "omit [''user_id'', ''updated_at''] p =
     filter (\<lambda>(k, v). k \<noteq> ''user_id'' \<and> k \<noteq> ''updated_at'') p"
    by (simp add: omit_def)
  have gone: "map_of (omit [''user_id'', ''updated_at''] p) ''user_id'' = None"
    "map_of (omit [''user_id'', ''updated_at''] p) ''updated_at'' = None"
    by (simp_all add: map_of_omit)
  have kept: "k \<noteq> ''user_id'' \<and> k \<noteq> ''updated_at'' \<longrightarrow>
      map_of (omit [''user_id'', ''updated_at''] p) k = map_of p k"
    by (simp add: map_of_omit)
  have first: "profile s = Some p \<longrightarrow>
      fst (onClick b s) =
        Some (Post ''/assessment/analyze'' (omit [''user_id'', ''updated_at''] p)) \<and>
      fst (onClick b' (generateRecommendations_settle i resp (snd (onClick b s)))) =
        fst (onClick b s)"
    using req [of s] again by (simp add: same)
  have buttons:
    "onClick regenerate_recommendations_btn s = onClick generate_recommendations_btn s"
    by (simp add: same)
  from buttons first gone kept flt show ?thesis by blast
qed

text \<open>
  A profile as the server returns it, with \<open>user_id\<close> and \<open>updated_at\<close>: the request of
  the regenerate button carries the two other fields.
\<close>

theorem regenerate_is_generate_witness:
  "profile (fetchProfile_settle
      (Inr [(''user_id'', JString ''u42''), (''academic_level'', JString ''high_school''),
            (''updated_at'', JString ''2024-05-01T10:00:00.000Z''),
            (''stream'', JString ''science'')])
      (Dashboard_mount (login [(''name'', JString ''Asha'')] ''tok'' (App_mount None)))) =
     Some [(''user_id'', JString ''u42''), (''academic_level'', JString ''high_school''),
           (''updated_at'', JString ''2024-05-01T10:00:00.000Z''),
           (''stream'', JString ''science'')] \<and>
   fst (onClick regenerate_recommendations_btn (fetchProfile_settle
      (Inr [(''user_id'', JString ''u42''), (''academic_level'', JString ''high_school''),
            (''updated_at'', JString ''2024-05-01T10:00:00.000Z''),
            (''stream'', JString ''science'')])
      (Dashboard_mount (login [(''name'', JString ''Asha'')] ''tok'' (App_mount None))))) =
     Some (Post ''/assessment/analyze''
       [(''academic_level'', JString ''high_school''), (''stream'', JString ''science'')]) \<and>
   ''stream'' \<noteq> ''user_id'' \<and> ''stream'' \<noteq> ''updated_at'' \<and>
   map_of (omit [''user_id'', ''updated_at'']
      [(''user_id'', JString ''u42''), (''academic_level'', JString ''high_school''),
       (''updated_at'', JString ''2024-05-01T10:00:00.000Z''),
       (''stream'', JString ''science'')])
     ''stream'' = Some (JString ''science'')"
  using regenerate_is_generate [where s = "fetchProfile_settle
      (Inr [(''user_id'', JString ''u42''), (''academic_level'', JString ''high_school''),
            (''updated_at'', JString ''2024-05-01T10:00:00.000Z''),
            (''stream'', JString ''science'')])
      (Dashboard_mount (login [(''name'', JString ''Asha'')] ''tok'' (App_mount None)))"
      and p = "[(''user_id'', JString ''u42''), (''academic_level'', JString ''high_school''),
        (''updated_at'', JString ''2024-05-01T10:00:00.000Z''),
        (''stream'', JString ''science'')]"
      and b = regenerate_recommendations_btn and b' = regenerate_recommendations_btn
      and i = 0 and resp = "Inl NetworkError" and k = "''stream''"]
  by (simp add: fetchProfile_settle_def Dashboard_mount_def unmount_form_def unmount_recs_def
      session_defs)

section \<open>Chat history\<close>

text \<open>
  C6, as stated, fails: when the endpoint returns the turns oldest first, the client shows
  the newest on top. \<open>fetchChatHistory\<close> reverses whatever it receives (line 462).
\<close>

theorem oldest_first_history_is_shown_newest_first:
  "displayed_turns (fetchChatHistory_settle
      (Inr [\<lparr>message = ''first'', response = ''a'', timestamp = ''2024-05-01T10:00:00.000Z''\<rparr>,
            \<lparr>message = ''second'', response = ''b'', timestamp = ''2024-05-02T10:00:00.000Z''\<rparr>])
      (Dashboard_mount (login [(''name'', JString ''Asha'')] ''tok'' (App_mount None))))
   = [\<lparr>message = ''second'', response = ''b'', timestamp = ''2024-05-02T10:00:00.000Z''\<rparr>,
      \<lparr>message = ''first'', response = ''a'', timestamp = ''2024-05-01T10:00:00.000Z''\<rparr>] \<and>
   \<not> oldest_first (displayed_turns (fetchChatHistory_settle
      (Inr [\<lparr>message = ''first'', response = ''a'', timestamp = ''2024-05-01T10:00:00.000Z''\<rparr>,
            \<lparr>message = ''second'', response = ''b'', timestamp = ''2024-05-02T10:00:00.000Z''\<rparr>])
      (Dashboard_mount (login [(''name'', JString ''Asha'')] ''tok'' (App_mount None)))))"
  by (simp add: displayed_turns_def fetchChatHistory_settle_def oldest_first_def
      less_eq_list_code less_list_code less_char_def less_eq_char_def)

text \<open>
  C6 (amended). The client displays the turns of the chat-history endpoint in the reverse
  of the order in which they are returned, whatever that order is; the display is oldest
  first exactly when the endpoint returns the turns newest first.
\<close>

theorem history_is_shown_reversed:
  "displayed_turns (fetchChatHistory_settle (Inr data) s) = rev data \<and>
   oldest_first (displayed_turns (fetchChatHistory_settle (Inr data) s)) = newest_first data"
  by (simp add: displayed_turns_def fetchChatHistory_settle_def oldest_first_def
      newest_first_def sorted_wrt_rev)

theorem history_is_shown_reversed_witness:
  "newest_first
     [\<lparr>message = ''second'', response = ''b'', timestamp = ''2024-05-02T10:00:00.000Z''\<rparr>,
      \<lparr>message = ''first'', response = ''a'', timestamp = ''2024-05-01T10:00:00.000Z''\<rparr>] \<and>
   oldest_first (displayed_turns (fetchChatHistory_settle
      (Inr [\<lparr>message = ''second'', response = ''b'', timestamp = ''2024-05-02T10:00:00.000Z''\<rparr>,
            \<lparr>message = ''first'', response = ''a'', timestamp = ''2024-05-01T10:00:00.000Z''\<rparr>])
      (Dashboard_mount (login [(''name'', JString ''Asha'')] ''tok'' (App_mount None)))))"
  using history_is_shown_reversed [of
      "[\<lparr>message = ''second'', response = ''b'', timestamp = ''2024-05-02T10:00:00.000Z''\<rparr>,
        \<lparr>message = ''first'', response = ''a'', timestamp = ''2024-05-01T10:00:00.000Z''\<rparr>]"
      "Dashboard_mount (login [(''name'', JString ''Asha'')] ''tok'' (App_mount None))"]
  by (simp add: newest_first_def displayed_turns_def fetchChatHistory_settle_def
      less_eq_list_code less_list_code less_char_def less_eq_char_def)

section \<open>Assessment form\<close>

lemma handleSubmit_body:
  "fst (handleSubmit s) =
     Post ''/profile'' (formData_object (form s) @ [(''user_id'', JString ''current_user'')])"
  by (simp add: handleSubmit_def handleSubmit_request_def formData_object_def)

text \<open>
  C8, as stated, fails: the form as it is first rendered has the empty string as its
  academic level, which is none of the three items, and submitting it sends the request.
  \<open>handleSubmit\<close> checks nothing before \<open>axios.post\<close> (lines 582-590).
\<close>

theorem empty_academic_level_is_transmitted:
  "academic_level
     (form (Dashboard_mount (login [(''name'', JString ''Asha'')] ''tok'' (App_mount None))))
     \<notin> set academic_level_items \<and>
   fst (handleSubmit
     (Dashboard_mount (login [(''name'', JString ''Asha'')] ''tok'' (App_mount None)))) =
     Post ''/profile''
       [(''academic_level'', JString []), (''current_class'', JString []),
        (''stream'', JString []), (''subjects'', JArray []), (''grades'', JObject []),
        (''interests'', JArray []), (''strengths'', JArray []),
        (''career_goals'', JString []), (''user_id'', JString ''current_user'')]"
  by (simp add: Dashboard_mount_def unmount_form_def unmount_recs_def initial_formData_def
      academic_level_items_def handleSubmit_def handleSubmit_request_def formData_object_def
      session_defs)

text \<open>
  C8 (amended). \<open>save(edits)\<close> validates nothing locally: the submit button, when it is
  on the screen and no save is on its way, runs \<open>handleSubmit\<close>, and \<open>handleSubmit\<close>
  transmits the form as it stands, with the academic level the form holds, whatever it
  is.
\<close>

theorem save_transmits_form_unchecked:
  "fst (handleSubmit s) =
     Post ''/profile'' (formData_object (form s) @ [(''user_id'', JString ''current_user'')]) \<and>
   map_of (formData_object (form s) @ [(''user_id'', JString ''current_user'')])
     ''academic_level'' = Some (JString (academic_level (form s))) \<and>
   (activeTab s = ''assessment'' \<and> \<not> form_isLoading s \<longrightarrow>
      dashboard_step s SubmitClicked = snd (handleSubmit s) \<and>
      saves_in_flight (dashboard_step s SubmitClicked) =
        saves_in_flight s @
          [\<lparr>saved_form = form s, saved_by_form = form_id s,
            saved_by_dashboard = dashboard_id s\<rparr>])"
proof -
  have lvl: "map_of (formData_object (form s) @ [(''user_id'', JString ''current_user'')])
     ''academic_level'' = Some (JString (academic_level (form s)))"
    by (simp add: formData_object_def)
  have click: "activeTab s = ''assessment'' \<and> \<not> form_isLoading s \<longrightarrow>
      dashboard_step s SubmitClicked = snd (handleSubmit s) \<and>
      saves_in_flight (dashboard_step s SubmitClicked) =
        saves_in_flight s @
          [\<lparr>saved_form = form s, saved_by_form = form_id s,
            saved_by_dashboard = dashboard_id s\<rparr>]"
    by (simp add: handleSubmit_def)
  from handleSubmit_body [of s] lvl click show ?thesis by blast
qed

text \<open>
  The user opens the dashboard and submits the form as it is: the request is issued with
  the empty academic level.
\<close>

theorem save_transmits_form_unchecked_witness:
  "activeTab (dashboard_after None [(''name'', JString ''Asha'')] ''tok'' []) = ''assessment'' \<and>
   \<not> form_isLoading (dashboard_after None [(''name'', JString ''Asha'')] ''tok'' []) \<and>
   map saved_form (saves_in_flight
     (dashboard_step (dashboard_after None [(''name'', JString ''Asha'')] ''tok'' [])
        SubmitClicked)) = [initial_formData] \<and>
   fst (handleSubmit (dashboard_after None [(''name'', JString ''Asha'')] ''tok'' [])) =
     Post ''/profile''
       [(''academic_level'', JString []), (''current_class'', JString []),
        (''stream'', JString []), (''subjects'', JArray []), (''grades'', JObject []),
        (''interests'', JArray []), (''strengths'', JArray []),
        (''career_goals'', JString []), (''user_id'', JString ''current_user'')]"
  using save_transmits_form_unchecked [where s =
      "dashboard_after None [(''name'', JString ''Asha'')] ''tok'' []"]
  by (simp add: run_defs formData_object_def)

lemma set_onCheckedChange_interest:
  "set (interests (onCheckedChange_interest x c fd)) =
     (if c then insert x (set (interests fd)) else set (interests fd) - {x})"
  by (auto simp: onCheckedChange_interest_def)

lemma set_onCheckedChange_strength:
  "set (strengths (onCheckedChange_strength x c fd)) =
     (if c then insert x (set (strengths fd)) else set (strengths fd) - {x})"
  by (auto simp: onCheckedChange_strength_def)

lemma filter_absent: "x \<notin> set xs \<Longrightarrow> filter (\<lambda>i. i \<noteq> x) xs = xs"
  by (induction xs) auto

lemma form_step_distinct:
  "distinct (interests fd) \<and> distinct (strengths fd) \<Longrightarrow>
   distinct (interests (form_step fd ev)) \<and> distinct (strengths (form_step fd ev))"
  by (cases ev)
    (auto simp: toggle_interest_def toggle_strength_def onCheckedChange_interest_def
      onCheckedChange_strength_def)

lemma form_run_distinct:
  "distinct (interests (form_run evs)) \<and> distinct (strengths (form_run evs))"
proof (induction evs rule: rev_induct)
  case Nil
  show ?case by (simp add: form_run_def initial_formData_def)
next
  case (snoc ev evs)
  have "form_run (evs @ [ev]) = form_step (form_run evs) ev"
    by (simp add: form_run_def)
  with form_step_distinct [OF snoc] show ?case by simp
qed

text \<open>
  C9. For every value and every form, toggling an interest (or a strength) twice gives
  back the set of selected values and changes no other field. Checking a value makes the
  set the old one with the value inserted, unchecking makes it the old one without the
  value; so checking a value that is selected leaves the set as it is, and unchecking a
  value that is not selected leaves the form as it is. The arrays of a form reached
  through its controls hold no value twice.
\<close>

theorem toggles_are_set_operations:
  "set (interests (toggle_interest x (toggle_interest x fd))) = set (interests fd) \<and>
   set (strengths (toggle_strength x (toggle_strength x fd))) = set (strengths fd) \<and>
   (toggle_interest x (toggle_interest x fd))\<lparr>interests := interests fd\<rparr> = fd \<and>
   (toggle_strength x (toggle_strength x fd))\<lparr>strengths := strengths fd\<rparr> = fd \<and>
   set (interests (onCheckedChange_interest x True fd)) = insert x (set (interests fd)) \<and>
   set (interests (onCheckedChange_interest x False fd)) = set (interests fd) - {x} \<and>
   set (strengths (onCheckedChange_strength x True fd)) = insert x (set (strengths fd)) \<and>
   set (strengths (onCheckedChange_strength x False fd)) = set (strengths fd) - {x} \<and>
   (x \<in> set (interests fd) \<longrightarrow>
      set (interests (onCheckedChange_interest x True fd)) = set (interests fd)) \<and>
   (x \<notin> set (interests fd) \<longrightarrow> onCheckedChange_interest x False fd = fd) \<and>
   (x \<in> set (strengths fd) \<longrightarrow>
      set (strengths (onCheckedChange_strength x True fd)) = set (strengths fd)) \<and>
   (x \<notin> set (strengths fd) \<longrightarrow> onCheckedChange_strength x False fd = fd) \<and>
   distinct (interests (form_run evs)) \<and> distinct (strengths (form_run evs))"
proof -
  have i2: "set (interests (toggle_interest x (toggle_interest x fd))) = set (interests fd)"
    by (auto simp: toggle_interest_def set_onCheckedChange_interest)
  have s2: "set (strengths (toggle_strength x (toggle_strength x fd))) = set (strengths fd)"
    by (auto simp: toggle_strength_def set_onCheckedChange_strength)
  have io: "(toggle_interest x (toggle_interest x fd))\<lparr>interests := interests fd\<rparr> = fd"
    by (simp add: toggle_interest_def onCheckedChange_interest_def)
  have so: "(toggle_strength x (toggle_strength x fd))\<lparr>strengths := strengths fd\<rparr> = fd"
    by (simp add: toggle_strength_def onCheckedChange_strength_def)
  have ir: "x \<notin> set (interests fd) \<Longrightarrow> onCheckedChange_interest x False fd = fd"
    by (simp add: onCheckedChange_interest_def filter_absent)
  have sr: "x \<notin> set (strengths fd) \<Longrightarrow> onCheckedChange_strength x False fd = fd"
    by (simp add: onCheckedChange_strength_def filter_absent)
  show ?thesis
    using i2 s2 io so ir sr form_run_distinct [of evs]
    by (auto simp: set_onCheckedChange_interest set_onCheckedChange_strength)
qed

theorem toggles_are_set_operations_witness:
  "''Science'' \<in> set (interests (initial_formData\<lparr>interests := [''Science'', ''Arts'']\<rparr>)) \<and>
   set (interests (onCheckedChange_interest ''Science'' True
          (initial_formData\<lparr>interests := [''Science'', ''Arts'']\<rparr>)))
     = {''Science'', ''Arts''} \<and>
   ''Music'' \<notin> set (interests (initial_formData\<lparr>interests := [''Science'', ''Arts'']\<rparr>)) \<and>
   onCheckedChange_interest ''Music'' False
       (initial_formData\<lparr>interests := [''Science'', ''Arts'']\<rparr>)
     = initial_formData\<lparr>interests := [''Science'', ''Arts'']\<rparr> \<and>
   set (interests (toggle_interest ''Science'' (toggle_interest ''Science''
          (initial_formData\<lparr>interests := [''Science'', ''Arts'']\<rparr>))))
     = {''Science'', ''Arts''} \<and>
   ''Analysis'' \<in> set (strengths (initial_formData\<lparr>strengths := [''Analysis'']\<rparr>)) \<and>
   set (strengths (onCheckedChange_strength ''Analysis'' True
          (initial_formData\<lparr>strengths := [''Analysis'']\<rparr>))) = {''Analysis''} \<and>
   ''Patience'' \<notin> set (strengths (initial_formData\<lparr>strengths := [''Analysis'']\<rparr>)) \<and>
   onCheckedChange_strength ''Patience'' False (initial_formData\<lparr>strengths := [''Analysis'']\<rparr>)
     = initial_formData\<lparr>strengths := [''Analysis'']\<rparr>"
  using toggles_are_set_operations [of "''Science''"
      "initial_formData\<lparr>interests := [''Science'', ''Arts'']\<rparr>"]
    toggles_are_set_operations [of "''Music''"
      "initial_formData\<lparr>interests := [''Science'', ''Arts'']\<rparr>"]
    toggles_are_set_operations [of "''Analysis''"
      "initial_formData\<lparr>strengths := [''Analysis'']\<rparr>"]
    toggles_are_set_operations [of "''Patience''"
      "initial_formData\<lparr>strengths := [''Analysis'']\<rparr>"]
  by (simp add: initial_formData_def insert_commute)

text \<open>
  C10. The body of every save request is the eight fields of the form followed by
  \<open>user_id\<close> with the value \<open>current_user\<close>, whoever is logged in; the profile handed
  to the dashboard after a successful save is the eight fields of the form, without
  \<open>user_id\<close>.
\<close>

theorem save_sends_constant_user_id:
  "fst (handleSubmit s) =
     Post ''/profile'' (formData_object (form s) @ [(''user_id'', JString ''current_user'')]) \<and>
   map fst (formData_object (form s) @ [(''user_id'', JString ''current_user'')]) =
     [''academic_level'', ''current_class'', ''stream'', ''subjects'', ''grades'',
      ''interests'', ''strengths'', ''career_goals'', ''user_id''] \<and>
   map_of (formData_object (form s) @ [(''user_id'', JString ''current_user'')]) ''user_id''
     = Some (JString ''current_user'') \<and>
   fst (handleSubmit (login u t s)) = fst (handleSubmit s) \<and>
   fst (handleSubmit (logout s)) = fst (handleSubmit s) \<and>
   profile (save (Inr v) s) = Some (formData_object (form s)) \<and>
   map_of (formData_object (form s)) ''user_id'' = None \<and>
   map fst (formData_object (form s)) =
     [''academic_level'', ''current_class'', ''stream'', ''subjects'', ''grades'',
      ''interests'', ''strengths'', ''career_goals'']"
proof -
  have same: "form (login u t s) = form s" "form (logout s) = form s"
    by (simp_all add: login_def logout_def token_effect_def)
  have saved: "profile (save (Inr v) s) = Some (formData_object (form s))"
    by (simp add: save_def handleSubmit_def handleSubmit_settle_def onProfileUpdate_def
        handleSubmit_finally_def)
  have nouid: "map_of (formData_object (form s)) ''user_id'' = None"
    by (simp add: formData_object_def)
  have keys: "map fst (formData_object (form s)) =
        [''academic_level'', ''current_class'', ''stream'', ''subjects'', ''grades'',
         ''interests'', ''strengths'', ''career_goals'']"
    by (simp add: formData_object_def)
  have keys': "map fst (formData_object (form s) @ [(''user_id'', JString ''current_user'')]) =
        [''academic_level'', ''current_class'', ''stream'', ''subjects'', ''grades'',
         ''interests'', ''strengths'', ''career_goals'', ''user_id'']"
    by (simp add: formData_object_def)
  have uid: "map_of (formData_object (form s) @ [(''user_id'', JString ''current_user'')])
      ''user_id'' = Some (JString ''current_user'')"
    by (simp add: formData_object_def)
  have indep: "fst (handleSubmit (login u t s)) = fst (handleSubmit s)"
    "fst (handleSubmit (logout s)) = fst (handleSubmit s)"
    by (simp_all add: handleSubmit_body same)
  from handleSubmit_body [of s] keys' uid indep saved nouid keys show ?thesis by blast
qed

text \<open>
  Two users, one after the other, save the form with the stream set to science: both
  requests carry \<open>current_user\<close>.
\<close>

theorem save_sends_constant_user_id_witness:
  "fst (handleSubmit (login [(''name'', JString ''Ravi'')] ''t2''
      ((Dashboard_mount (login [(''name'', JString ''Asha'')] ''t1'' (App_mount None)))
         \<lparr>form := initial_formData\<lparr>stream := ''science''\<rparr>\<rparr>))) =
     Post ''/profile''
       [(''academic_level'', JString []), (''current_class'', JString []),
        (''stream'', JString ''science''), (''subjects'', JArray []), (''grades'', JObject []),
        (''interests'', JArray []), (''strengths'', JArray []),
        (''career_goals'', JString []), (''user_id'', JString ''current_user'')] \<and>
   fst (handleSubmit
      ((Dashboard_mount (login [(''name'', JString ''Asha'')] ''t1'' (App_mount None)))
         \<lparr>form := initial_formData\<lparr>stream := ''science''\<rparr>\<rparr>)) =
     Post ''/profile''
       [(''academic_level'', JString []), (''current_class'', JString []),
        (''stream'', JString ''science''), (''subjects'', JArray []), (''grades'', JObject []),
        (''interests'', JArray []), (''strengths'', JArray []),
        (''career_goals'', JString []), (''user_id'', JString ''current_user'')]"
  using save_sends_constant_user_id [of
      "(Dashboard_mount (login [(''name'', JString ''Asha'')] ''t1'' (App_mount None)))
         \<lparr>form := initial_formData\<lparr>stream := ''science''\<rparr>\<rparr>"
      "[(''name'', JString ''Ravi'')]" "''t2''" "()"]
  by (simp add: formData_object_def initial_formData_def Dashboard_mount_def
      unmount_form_def unmount_recs_def)
end
